theory Spec2Isabelle
  imports Main
begin

section \<open>Data model\<close>

text \<open>
  The snapshot handler of \<^verbatim>\<open>tk_multi_snapshot/snapshot.py\<close> works on paths, on the
  field dictionaries a path template extracts from a path, and on the file system. Paths
  and file contents are strings; a field value is an integer, a string or Python's
  \<^verbatim>\<open>None\<close>.
\<close>

type_synonym path = string

datatype field_value = FInt int | FStr string | FNone

type_synonym fields = "string \<rightharpoonup> field_value"

text \<open>
  Exceptions are values. \<open>TankError\<close> carries the message the source formats; the other
  constructors are the exceptions the libraries and hooks raise.
\<close>

datatype error =
    TankError string
  | HookError string
  | TemplateError string
  | YAMLError string
  | ValueError string
  | TypeError string
  | AttributeError string
  | OSError string

text \<open>
  A template of the toolkit (\<^verbatim>\<open>self._work_template\<close>, \<^verbatim>\<open>self._snapshot_template\<close>):
  the three methods the handler calls and the names of the template's keys.
\<close>

record template =
  validate :: "path \<Rightarrow> bool"
  get_fields :: "path \<Rightarrow> error + fields"
  apply_fields :: "fields \<Rightarrow> error + path"
  keys :: "string list"

text \<open>
  The file system maps a path to the content of the file there. What \<^verbatim>\<open>yaml.load\<close>
  returns is a dictionary from snapshot file names to comments, or some other object.
\<close>

type_synonym fs = "path \<rightharpoonup> string"

datatype yaml_doc = YDict "string \<rightharpoonup> string" | YNotDict

datatype datetime = Datetime nat nat nat nat nat nat

text \<open>
  A thumbnail (\<^verbatim>\<open>QPixmap\<close>): whether it is null, and the PNG bytes its \<^verbatim>\<open>save\<close>
  writes (\<open>None\<close> when \<^verbatim>\<open>save\<close> returns false).
\<close>

record pixmap =
  isNull :: bool
  png_data :: "string option"

text \<open>
  The application object \<^verbatim>\<open>self._app\<close> with the libraries the handler calls: the two
  templates, the listing of paths that match a template, the three hooks (each acts on
  the file system and may raise), the YAML reader and writer, \<^verbatim>\<open>datetime.strptime\<close>
  at the format \<^verbatim>\<open>TIMESTAMP_FMT\<close>, the formatted current time, and the name a new
  temporary file gets.
\<close>

record app =
  work_template :: template
  snapshot_template :: template
  paths_from_template :: "fs \<Rightarrow> fields \<Rightarrow> string list \<Rightarrow> path list"
  hook_save :: "fs \<Rightarrow> error option \<times> fs"
  hook_open :: "path \<Rightarrow> fs \<Rightarrow> error option \<times> fs"
  hook_copy_file :: "path \<Rightarrow> path \<Rightarrow> fs \<Rightarrow> error option \<times> fs"
  yaml_load :: "string \<Rightarrow> error + yaml_doc"
  yaml_dump :: "(string \<rightharpoonup> string) \<Rightarrow> string"
  strptime :: "string \<Rightarrow> error + datetime"
  now_stamp :: string
  temp_path :: "fs \<Rightarrow> path"

text \<open>
  What the handler does to the outside is recorded in order: each call of a hook, each log
  line, each read and write of a comments file.
\<close>

datatype event =
    EvSave
  | EvCopy path path
  | EvOpen path
  | EvDebug string
  | EvWarning string
  | EvYamlLoad path
  | EvYamlDump path

record world =
  files :: fs
  trace :: "event list"

record history_entry =
  he_file :: path
  he_comment :: string
  he_thumbnail_path :: path
  he_version :: "field_value option"
  he_increment :: "field_value option"
  he_datetime :: "datetime option"

section \<open>Path functions of \<^verbatim>\<open>os.path\<close> (POSIX)\<close>

definition basename :: "path \<Rightarrow> string" where
  "basename p = rev (takeWhile (\<lambda>c. c \<noteq> CHR ''/'') (rev p))"

definition dirname :: "path \<Rightarrow> string" where
  "dirname p =
     (let head = rev (dropWhile (\<lambda>c. c \<noteq> CHR ''/'') (rev p))
      in if head \<noteq> [] \<and> list_ex (\<lambda>c. c \<noteq> CHR ''/'') head
         then rev (dropWhile (\<lambda>c. c = CHR ''/'') (rev head))
         else head)"

definition splitext :: "path \<Rightarrow> string \<times> string" where
  "splitext p =
     (let name = basename p;
          stem = rev (tl (dropWhile (\<lambda>c. c \<noteq> CHR ''.'') (rev name)));
          ext = takeWhile (\<lambda>c. c \<noteq> CHR ''.'') (rev name)
      in if CHR ''.'' \<in> set name \<and> list_ex (\<lambda>c. c \<noteq> CHR ''.'') stem
         then (take (length p - Suc (length ext)) p, drop (length p - Suc (length ext)) p)
         else (p, []))"

definition path_exists :: "world \<Rightarrow> path \<Rightarrow> bool" where
  "path_exists w p = (files w p \<noteq> None)"

section \<open>Hooks and logging\<close>

definition log_debug :: "string \<Rightarrow> world \<Rightarrow> world" where
  "log_debug msg w = w\<lparr>trace := trace w @ [EvDebug msg]\<rparr>"

definition log_warning :: "string \<Rightarrow> world \<Rightarrow> world" where
  "log_warning msg w = w\<lparr>trace := trace w @ [EvWarning msg]\<rparr>"

definition save_current_file :: "app \<Rightarrow> world \<Rightarrow> error option \<times> world" where
  "save_current_file E w =
     (case hook_save E (files w) of
        (r, fs') \<Rightarrow> (r, w\<lparr>files := fs', trace := trace w @ [EvSave]\<rparr>))"

definition open_file :: "app \<Rightarrow> path \<Rightarrow> world \<Rightarrow> error option \<times> world" where
  "open_file E file_path w =
     (case hook_open E file_path (files w) of
        (r, fs') \<Rightarrow> (r, w\<lparr>files := fs', trace := trace w @ [EvOpen file_path]\<rparr>))"

definition copy_file :: "app \<Rightarrow> path \<Rightarrow> path \<Rightarrow> world \<Rightarrow> error option \<times> world" where
  "copy_file E source_path target_path w =
     (case hook_copy_file E source_path target_path (files w) of
        (r, fs') \<Rightarrow>
          (r, w\<lparr>files := fs', trace := trace w @ [EvCopy source_path target_path]\<rparr>))"

section \<open>The snapshot handler\<close>

text \<open>A string between single quotes, as the format \<^verbatim>\<open>'%s'\<close> prints it.\<close>

definition squote :: "string \<Rightarrow> string" where
  "squote s = CHR 0x27 # s @ [CHR 0x27]"

text \<open>
  \<^verbatim>\<open>_find_next_snapshot_increment\<close>: the body of the source is four comments and
  \<^verbatim>\<open>pass\<close>, so the call returns \<^verbatim>\<open>None\<close> whatever its argument.
\<close>

definition find_next_snapshot_increment :: "fields \<Rightarrow> field_value" where
  "find_next_snapshot_increment snapshot_fields = FNone"

definition get_thumbnail_file_path :: "path \<Rightarrow> path" where
  "get_thumbnail_file_path snapshot_file_path =
     fst (splitext snapshot_file_path) @ ''.tank_thumb.png''"

text \<open>
  \<^verbatim>\<open>_get_comments_file_path\<close>: the fields of the snapshot path with \<open>version\<close> set
  to 0 give a work path; the comments file lies in the snapshot's directory and is named
  after that work path's base name without its extension.
\<close>

definition get_comments_file_path :: "app \<Rightarrow> path \<Rightarrow> error + path" where
  "get_comments_file_path E snapshot_file_path =
     (let snapshot_dir = dirname snapshot_file_path in
      case get_fields (snapshot_template E) snapshot_file_path of
        Inl e \<Rightarrow> Inl e
      | Inr flds \<Rightarrow>
          (case apply_fields (work_template E) (flds(''version'' \<mapsto> FInt 0)) of
             Inl e \<Rightarrow> Inl e
           | Inr work_path \<Rightarrow>
               (let work_file_name = basename work_path;
                    work_file_title = fst (splitext work_file_name)
                in Inr (snapshot_dir @ ''/'' @ work_file_title @ ''.tank_comments.yml''))))"

text \<open>
  \<^verbatim>\<open>_add_snapshot_comment\<close>: a path that is no snapshot path is logged and left
  alone; otherwise the comments file is read when it exists, the entry of the snapshot's
  base name is set, and the dictionary is written back. Nothing catches what
  \<^verbatim>\<open>yaml.load\<close> raises, and storing into an object that is no dictionary raises.
\<close>

definition add_snapshot_comment ::
  "app \<Rightarrow> path \<Rightarrow> string \<Rightarrow> world \<Rightarrow> error option \<times> world" where
  "add_snapshot_comment E snapshot_file_path comment w =
     (if \<not> validate (snapshot_template E) snapshot_file_path
      then (None, log_warning (''Could not add comment to invalid snapshot path ''
                                 @ snapshot_file_path @ ''!'') w)
      else
        case get_comments_file_path E snapshot_file_path of
          Inl e \<Rightarrow> (Some e, w)
        | Inr comments_file_path \<Rightarrow>
            (let w1 = log_debug (''Snapshot: Adding comment to file '' @ comments_file_path) w in
             case files w1 comments_file_path of
               None \<Rightarrow>
                 (None, w1\<lparr>files := (files w1)(comments_file_path \<mapsto>
                                 yaml_dump E (Map.empty(basename snapshot_file_path \<mapsto> comment))),
                            trace := trace w1 @ [EvYamlDump comments_file_path]\<rparr>)
             | Some content \<Rightarrow>
                 (let w2 = w1\<lparr>trace := trace w1 @ [EvYamlLoad comments_file_path]\<rparr> in
                  case yaml_load E content of
                    Inl e \<Rightarrow> (Some e, w2)
                  | Inr YNotDict \<Rightarrow>
                      (Some (TypeError ''object does not support item assignment''), w2)
                  | Inr (YDict comments) \<Rightarrow>
                      (None, w2\<lparr>files := (files w2)(comments_file_path \<mapsto>
                                      yaml_dump E (comments(basename snapshot_file_path \<mapsto> comment))),
                                 trace := trace w2 @ [EvYamlDump comments_file_path]\<rparr>))))"

text \<open>\<^verbatim>\<open>_get_snapshot_comments\<close>: the comments file of a snapshot path, read when it exists.\<close>

definition get_snapshot_comments ::
  "app \<Rightarrow> path \<Rightarrow> world \<Rightarrow> (error + yaml_doc) \<times> world" where
  "get_snapshot_comments E file_path w =
     (case get_comments_file_path E file_path of
        Inl e \<Rightarrow> (Inl e, w)
      | Inr comments_file_path \<Rightarrow>
          (case files w comments_file_path of
             None \<Rightarrow> (Inr (YDict Map.empty), w)
           | Some content \<Rightarrow>
               (yaml_load E content, w\<lparr>trace := trace w @ [EvYamlLoad comments_file_path]\<rparr>)))"

text \<open>
  \<^verbatim>\<open>_add_snapshot_thumbnail\<close>: the pixmap is saved to a new temporary file, copied to
  the thumbnail path by the copy hook, and the temporary file is removed in the
  \<^verbatim>\<open>finally\<close> block, where \<^verbatim>\<open>os.remove\<close> raises when the file is gone.
\<close>

definition add_snapshot_thumbnail ::
  "app \<Rightarrow> path \<Rightarrow> pixmap option \<Rightarrow> world \<Rightarrow> error option \<times> world" where
  "add_snapshot_thumbnail E snapshot_file_path thumbnail w =
     (case thumbnail of
        None \<Rightarrow> (None, w)
      | Some t \<Rightarrow>
          if isNull t then (None, w)
          else
            (let tmp = temp_path E (files w);
                 w1 = w\<lparr>files := (files w)(tmp \<mapsto> [])\<rparr>;
                 body =
                   (case png_data t of
                      None \<Rightarrow>
                        (Some (TankError (''Snapshot: Failed to save thumbnail to '' @ squote tmp)), w1)
                    | Some d \<Rightarrow>
                        (let w2 = w1\<lparr>files := (files w1)(tmp \<mapsto> d)\<rparr>;
                             thumbnail_path = get_thumbnail_file_path snapshot_file_path;
                             w3 = log_debug (''Snapshot: Copying '' @ tmp @ '' --> '' @ thumbnail_path) w2
                         in copy_file E tmp thumbnail_path w3))
             in case body of
                  (r, w4) \<Rightarrow>
                    if files w4 tmp = None
                    then (Some (OSError ''No such file or directory''), w4)
                    else (r, w4\<lparr>files := (files w4)(tmp := None)\<rparr>)))"

text \<open>
  \<^verbatim>\<open>do_snapshot\<close>, in three parts: \<open>snapshot_fields\<close> adds the fields of the new
  snapshot to those of the work path (the timestamp, and the increment when the snapshot
  template has that key: the source passes an empty dictionary to the allocator);
  \<open>snapshot_to\<close> is the code from the copy on (the copy by the hook, the check that the
  snapshot exists, the comment and the thumbnail); \<open>do_snapshot\<close> is the code before it
  (the save, the two checks of the work path, the fields and the snapshot path).
\<close>

definition snapshot_fields :: "app \<Rightarrow> fields \<Rightarrow> fields" where
  "snapshot_fields E flds =
     (let flds1 = flds(''timestamp'' \<mapsto> FStr (now_stamp E))
      in if ''increment'' \<in> set (keys (snapshot_template E))
         then flds1(''increment'' \<mapsto> find_next_snapshot_increment Map.empty)
         else flds1)"

definition snapshot_to ::
  "app \<Rightarrow> path \<Rightarrow> path \<Rightarrow> pixmap option \<Rightarrow> string \<Rightarrow> world \<Rightarrow> error option \<times> world" where
  "snapshot_to E work_path snapshot_path thumbnail comment w =
     (let w2 = log_debug (''Snapshot: Copying '' @ work_path @ '' --> '' @ snapshot_path) w in
      case copy_file E work_path snapshot_path w2 of
        (Some e, w3) \<Rightarrow> (Some e, w3)
      | (None, w3) \<Rightarrow>
          if \<not> path_exists w3 snapshot_path
          then (Some (TankError (''Snapshot: Failed to copy work file from '' @ squote work_path
                                   @ '' to '' @ squote snapshot_path)), w3)
          else
            (case (if comment \<noteq> [] then add_snapshot_comment E snapshot_path comment w3
                   else (None, w3)) of
               (Some e, w4) \<Rightarrow> (Some e, w4)
             | (None, w4) \<Rightarrow>
                 (case thumbnail of
                    None \<Rightarrow> (None, w4)
                  | Some t \<Rightarrow> add_snapshot_thumbnail E snapshot_path (Some t) w4)))"

definition do_snapshot ::
  "app \<Rightarrow> path \<Rightarrow> pixmap option \<Rightarrow> string \<Rightarrow> world \<Rightarrow> error option \<times> world" where
  "do_snapshot E work_path thumbnail comment w =
     (case save_current_file E w of
        (Some e, w1) \<Rightarrow> (Some e, w1)
      | (None, w1) \<Rightarrow>
          if \<not> path_exists w1 work_path
          then (Some (TankError (''Snapshot: Work file '' @ work_path
                                   @ '' could not be found on disk!'')), w1)
          else if \<not> validate (work_template E) work_path
          then (Some (TankError (''Unable to snapshot non-work file '' @ work_path)), w1)
          else
            (case get_fields (work_template E) work_path of
               Inl e \<Rightarrow> (Some e, w1)
             | Inr flds \<Rightarrow>
                 (case apply_fields (snapshot_template E) (snapshot_fields E flds) of
                    Inl e \<Rightarrow> (Some e, w1)
                  | Inr snapshot_path \<Rightarrow>
                      snapshot_to E work_path snapshot_path thumbnail comment w1)))"

text \<open>
  \<^verbatim>\<open>restore_snapshot\<close>. \<open>restore_copy_open\<close> is the end of the method: the copy of
  the snapshot to the work path by the hook, then the hook that opens the work file.
\<close>

definition restore_copy_open ::
  "app \<Rightarrow> path \<Rightarrow> path \<Rightarrow> world \<Rightarrow> error option \<times> world" where
  "restore_copy_open E snapshot_path work_path w =
     (let w3 = log_debug (''Snapshot Restore: Copying '' @ work_path
                            @ '' --> '' @ snapshot_path) w in
      case copy_file E snapshot_path work_path w3 of
        (Some e, w4) \<Rightarrow> (Some e, w4)
      | (None, w4) \<Rightarrow>
          open_file E work_path (log_debug (''Snapshot Restore: Opening '' @ work_path) w4))"

definition restore_snapshot :: "app \<Rightarrow> path \<Rightarrow> world \<Rightarrow> error option \<times> world" where
  "restore_snapshot E snapshot_path w =
     (if snapshot_path = [] then (None, w)
      else
        case save_current_file E w of
          (Some e, w1) \<Rightarrow> (Some e, w1)
        | (None, w1) \<Rightarrow>
            if \<not> validate (snapshot_template E) snapshot_path
            then (Some (TankError (snapshot_path @ '' is not a valid snapshot path!'')), w1)
            else
              (case get_fields (snapshot_template E) snapshot_path of
                 Inl e \<Rightarrow> (Some e, w1)
               | Inr flds \<Rightarrow>
                   (case apply_fields (work_template E) flds of
                      Inl e \<Rightarrow> (Some e, w1)
                    | Inr work_path \<Rightarrow>
                        (case (if path_exists w1 work_path
                               then do_snapshot E work_path None
                                      (''Automatic snapshot before restoring older snapshot ''
                                         @ squote (basename snapshot_path)) w1
                               else (None, w1)) of
                           (Some e, w2) \<Rightarrow> (Some e, w2)
                         | (None, w2) \<Rightarrow> restore_copy_open E snapshot_path work_path w2))))"

text \<open>
  \<^verbatim>\<open>find_snapshot_history\<close>. \<open>history_details\<close> is the body of the loop over the
  listed files: the comment (\<^verbatim>\<open>comments.get\<close> raises on an object that is no
  dictionary), the thumbnail path, the fields of the file, and the datetime, parsed when
  the \<open>timestamp\<close> field is true in Python's sense. Nothing catches what
  \<^verbatim>\<open>get_fields\<close> or \<^verbatim>\<open>strptime\<close> raises.
\<close>

definition history_details :: "app \<Rightarrow> yaml_doc \<Rightarrow> path \<Rightarrow> error + history_entry" where
  "history_details E comments file =
     (case comments of
        YNotDict \<Rightarrow> Inl (AttributeError ''object has no attribute get'')
      | YDict cm \<Rightarrow>
          (let details = \<lparr>he_file = file,
                          he_comment = (case cm (basename file) of None \<Rightarrow> [] | Some c \<Rightarrow> c),
                          he_thumbnail_path = get_thumbnail_file_path file,
                          he_version = None, he_increment = None, he_datetime = None\<rparr> in
           case get_fields (snapshot_template E) file of
             Inl e \<Rightarrow> Inl e
           | Inr flds \<Rightarrow>
               (let details1 = details\<lparr>he_version := flds ''version'',
                                        he_increment := flds ''increment''\<rparr> in
                case flds ''timestamp'' of
                  None \<Rightarrow> Inr details1
                | Some FNone \<Rightarrow> Inr details1
                | Some (FInt n) \<Rightarrow>
                    if n = 0 then Inr details1
                    else Inl (TypeError ''strptime() argument 1 must be string'')
                | Some (FStr timestamp) \<Rightarrow>
                    if timestamp = [] then Inr details1
                    else (case strptime E timestamp of
                            Inl e \<Rightarrow> Inl e
                          | Inr dt \<Rightarrow> Inr (details1\<lparr>he_datetime := Some dt\<rparr>)))))"

fun history_loop ::
  "app \<Rightarrow> yaml_doc \<Rightarrow> path list \<Rightarrow> history_entry list \<Rightarrow> error + history_entry list" where
  "history_loop E comments [] history = Inr history"
| "history_loop E comments (file # rest) history =
     (case history_details E comments file of
        Inl e \<Rightarrow> Inl e
      | Inr details \<Rightarrow> history_loop E comments rest (history @ [details]))"

definition find_snapshot_history ::
  "app \<Rightarrow> path \<Rightarrow> world \<Rightarrow> (error + history_entry list) \<times> world" where
  "find_snapshot_history E file_path w =
     (if file_path = [] then (Inr [], w)
      else
        case (if validate (work_template E) file_path
              then Some (get_fields (work_template E) file_path)
              else if validate (snapshot_template E) file_path
              then Some (get_fields (snapshot_template E) file_path)
              else None) of
          None \<Rightarrow> (Inr [], w)
        | Some (Inl e) \<Rightarrow> (Inl e, w)
        | Some (Inr flds) \<Rightarrow>
            (case paths_from_template E (files w) flds [''version'', ''timestamp'', ''increment''] of
               [] \<Rightarrow> (Inr [], w)
             | first # others \<Rightarrow>
                 (case get_snapshot_comments E first w of
                    (Inl e, w1) \<Rightarrow> (Inl e, w1)
                  | (Inr comments, w1) \<Rightarrow>
                      (history_loop E comments (first # others) [], w1))))"

text \<open>
  The key of the comments store as the specification words it: the template fields of the
  snapshot path, the \<open>version\<close> field forced to 0, the work path derived from them, and
  that work path's base name without its extension.
\<close>

definition store_key_spec :: "app \<Rightarrow> path \<Rightarrow> error + string" where
  "store_key_spec E snapshot_path =
     (case get_fields (snapshot_template E) snapshot_path of
        Inl e \<Rightarrow> Inl e
      | Inr flds \<Rightarrow>
          (case apply_fields (work_template E) (flds(''version'' \<mapsto> FInt 0)) of
             Inl e \<Rightarrow> Inl e
           | Inr work_path \<Rightarrow> Inr (fst (splitext (basename work_path)))))"

section \<open>An example configuration\<close>

text \<open>
  A small configuration on which the theorems below are instantiated. The work template
  is \<^verbatim>\<open>/w/{name}.v{version}.ma\<close> and the snapshot template
  \<^verbatim>\<open>/s/{name}.v{version}.{timestamp}.ma\<close>; each knows a few paths by a table and
  builds a path from the fields of its keys. A second snapshot template,
  \<^verbatim>\<open>/s/v{version}/{name}.{timestamp}.ma\<close>, keeps every version in a directory of
  its own.
\<close>

definition table_template ::
  "(path \<times> (string \<times> field_value) list) list \<Rightarrow> (fields \<Rightarrow> error + path)
     \<Rightarrow> string list \<Rightarrow> template" where
  "table_template tbl build ks =
     \<lparr>validate = (\<lambda>p. map_of tbl p \<noteq> None),
      get_fields = (\<lambda>p. case map_of tbl p of
                            None \<Rightarrow> Inl (TemplateError p)
                          | Some kv \<Rightarrow> Inr (map_of kv)),
      apply_fields = build,
      keys = ks\<rparr>"

definition digit :: "int \<Rightarrow> string" where
  "digit v = (if v = 0 then ''0'' else if v = 1 then ''1'' else if v = 2 then ''2'' else ''9'')"

definition demo_work_apply :: "fields \<Rightarrow> error + path" where
  "demo_work_apply f =
     (case f ''name'' of
        Some (FStr n) \<Rightarrow>
          (case f ''version'' of
             Some (FInt v) \<Rightarrow> Inr (''/w/'' @ n @ ''.v'' @ digit v @ ''.ma'')
           | _ \<Rightarrow> Inl (TemplateError ''version''))
      | _ \<Rightarrow> Inl (TemplateError ''name''))"

definition demo_snapshot_apply :: "fields \<Rightarrow> error + path" where
  "demo_snapshot_apply f =
     (case f ''name'' of
        Some (FStr n) \<Rightarrow>
          (case f ''version'' of
             Some (FInt v) \<Rightarrow>
               (case f ''timestamp'' of
                  Some (FStr t) \<Rightarrow> Inr (''/s/'' @ n @ ''.v'' @ digit v @ ''.'' @ t @ ''.ma'')
                | _ \<Rightarrow> Inl (TemplateError ''timestamp''))
           | _ \<Rightarrow> Inl (TemplateError ''version''))
      | _ \<Rightarrow> Inl (TemplateError ''name''))"

definition vdir_snapshot_apply :: "fields \<Rightarrow> error + path" where
  "vdir_snapshot_apply f =
     (case f ''name'' of
        Some (FStr n) \<Rightarrow>
          (case f ''version'' of
             Some (FInt v) \<Rightarrow>
               (case f ''timestamp'' of
                  Some (FStr t) \<Rightarrow> Inr (''/s/v'' @ digit v @ ''/'' @ n @ ''.'' @ t @ ''.ma'')
                | _ \<Rightarrow> Inl (TemplateError ''timestamp''))
           | _ \<Rightarrow> Inl (TemplateError ''version''))
      | _ \<Rightarrow> Inl (TemplateError ''name''))"

definition demo_work_template :: template where
  "demo_work_template =
     table_template
       [(''/w/a.v1.ma'', [(''name'', FStr ''a''), (''version'', FInt 1)]),
        (''/w/a.v2.ma'', [(''name'', FStr ''a''), (''version'', FInt 2)])]
       demo_work_apply [''name'', ''version'']"

definition demo_snapshot_template :: template where
  "demo_snapshot_template =
     table_template
       [(''/s/a.v1.2024-01-01-12-00-00.ma'',
           [(''name'', FStr ''a''), (''version'', FInt 1),
            (''timestamp'', FStr ''2024-01-01-12-00-00'')]),
        (''/s/a.v1.2024-05-05-10-30-00.ma'',
           [(''name'', FStr ''a''), (''version'', FInt 1),
            (''timestamp'', FStr ''2024-05-05-10-30-00'')]),
        (''/s/a.v2.yesterday.ma'',
           [(''name'', FStr ''a''), (''version'', FInt 2),
            (''timestamp'', FStr ''yesterday'')]),
        (''/s/a.v2.ma'', [(''name'', FStr ''a''), (''version'', FInt 2)])]
       demo_snapshot_apply [''name'', ''version'', ''timestamp'']"

definition vdir_snapshot_template :: template where
  "vdir_snapshot_template =
     table_template
       [(''/s/v1/a.2024-01-01-12-00-00.ma'',
           [(''name'', FStr ''a''), (''version'', FInt 1),
            (''timestamp'', FStr ''2024-01-01-12-00-00'')]),
        (''/s/v2/a.2024-05-05-10-30-00.ma'',
           [(''name'', FStr ''a''), (''version'', FInt 2),
            (''timestamp'', FStr ''2024-05-05-10-30-00'')])]
       vdir_snapshot_apply [''name'', ''version'', ''timestamp'']"

text \<open>
  The libraries and hooks of the example: a time parser that knows two timestamps, a
  listing of the snapshots of \<open>a\<close> that are on disk, a copy hook that copies, and a YAML
  reader and writer for a dictionary with at most one of two keys.
\<close>

definition demo_strptime :: "string \<Rightarrow> error + datetime" where
  "demo_strptime s =
     (if s = ''2024-01-01-12-00-00'' then Inr (Datetime 2024 1 1 12 0 0)
      else if s = ''2024-05-05-10-30-00'' then Inr (Datetime 2024 5 5 10 30 0)
      else Inl (ValueError ''time data does not match format''))"

definition demo_paths :: "fs \<Rightarrow> fields \<Rightarrow> string list \<Rightarrow> path list" where
  "demo_paths disk flds skip =
     filter (\<lambda>p. disk p \<noteq> None)
       [''/s/a.v1.2024-01-01-12-00-00.ma'', ''/s/a.v2.yesterday.ma'']"

definition demo_copy :: "path \<Rightarrow> path \<Rightarrow> fs \<Rightarrow> error option \<times> fs" where
  "demo_copy src dst disk =
     (case disk src of
        None \<Rightarrow> (Some (HookError ''no such file''), disk)
      | Some d \<Rightarrow> (None, disk(dst \<mapsto> d)))"

definition demo_yaml_load :: "string \<Rightarrow> error + yaml_doc" where
  "demo_yaml_load s =
     (if s = ''{}'' then Inr (YDict Map.empty)
      else if take 2 s = ''1:''
      then Inr (YDict [''a.v1.2024-01-01-12-00-00.ma'' \<mapsto> drop 2 s])
      else if take 2 s = ''5:''
      then Inr (YDict [''a.v1.2024-05-05-10-30-00.ma'' \<mapsto> drop 2 s])
      else if s = ''[]'' then Inr YNotDict
      else Inl (YAMLError ''could not parse''))"

definition demo_yaml_dump :: "(string \<rightharpoonup> string) \<Rightarrow> string" where
  "demo_yaml_dump m =
     (case m ''a.v1.2024-01-01-12-00-00.ma'' of
        Some c \<Rightarrow> ''1:'' @ c
      | None \<Rightarrow>
          (case m ''a.v1.2024-05-05-10-30-00.ma'' of
             Some c \<Rightarrow> ''5:'' @ c
           | None \<Rightarrow> ''{}''))"

definition demo_app :: app where
  "demo_app =
     \<lparr>work_template = demo_work_template,
      snapshot_template = demo_snapshot_template,
      paths_from_template = demo_paths,
      hook_save = (\<lambda>disk. (None, disk)),
      hook_open = (\<lambda>p disk. (None, disk)),
      hook_copy_file = demo_copy,
      yaml_load = demo_yaml_load,
      yaml_dump = demo_yaml_dump,
      strptime = demo_strptime,
      now_stamp = ''2024-05-05-10-30-00'',
      temp_path = (\<lambda>disk. ''/tmp/t.png'')\<rparr>"

text \<open>The same application with a copy hook that reports success and copies nothing.\<close>

definition lazy_app :: app where
  "lazy_app = demo_app\<lparr>hook_copy_file := (\<lambda>src dst disk. (None, disk))\<rparr>"

text \<open>
  The same application with the snapshot template that has a directory per version, the
  listing of its snapshots, and a YAML reader and writer for the names of its snapshots.
\<close>

definition vdir_paths :: "fs \<Rightarrow> fields \<Rightarrow> string list \<Rightarrow> path list" where
  "vdir_paths disk flds skip =
     filter (\<lambda>p. disk p \<noteq> None)
       [''/s/v1/a.2024-01-01-12-00-00.ma'', ''/s/v2/a.2024-05-05-10-30-00.ma'']"

definition vdir_yaml_load :: "string \<Rightarrow> error + yaml_doc" where
  "vdir_yaml_load s =
     (if s = ''{}'' then Inr (YDict Map.empty)
      else if take 2 s = ''1:''
      then Inr (YDict [''a.2024-01-01-12-00-00.ma'' \<mapsto> drop 2 s])
      else if take 2 s = ''5:''
      then Inr (YDict [''a.2024-05-05-10-30-00.ma'' \<mapsto> drop 2 s])
      else Inl (YAMLError ''could not parse''))"

definition vdir_yaml_dump :: "(string \<rightharpoonup> string) \<Rightarrow> string" where
  "vdir_yaml_dump m =
     (case m ''a.2024-01-01-12-00-00.ma'' of
        Some c \<Rightarrow> ''1:'' @ c
      | None \<Rightarrow>
          (case m ''a.2024-05-05-10-30-00.ma'' of
             Some c \<Rightarrow> ''5:'' @ c
           | None \<Rightarrow> ''{}''))"

definition vdir_app :: app where
  "vdir_app = demo_app\<lparr>snapshot_template := vdir_snapshot_template,
                        paths_from_template := vdir_paths,
                        yaml_load := vdir_yaml_load,
                        yaml_dump := vdir_yaml_dump\<rparr>"

text \<open>
  Five disks: a work file and a file that is no work file; a work file with one snapshot;
  the same with a comments store that does not parse; a work file with one snapshot of
  each of two versions, each in the directory of its version; a work file with a second
  snapshot whose timestamp is no timestamp.
\<close>

definition demo_world :: world where
  "demo_world = \<lparr>files = [''/w/a.v1.ma'' \<mapsto> ''scene B'', ''/x/notes.txt'' \<mapsto> ''memo''],
                  trace = []\<rparr>"

definition demo_world_snap :: world where
  "demo_world_snap =
     \<lparr>files = [''/w/a.v1.ma'' \<mapsto> ''scene B'',
                ''/s/a.v1.2024-01-01-12-00-00.ma'' \<mapsto> ''scene A''],
      trace = []\<rparr>"

definition demo_world_bad_store :: world where
  "demo_world_bad_store =
     \<lparr>files = [''/w/a.v1.ma'' \<mapsto> ''scene B'',
                ''/s/a.v1.2024-01-01-12-00-00.ma'' \<mapsto> ''scene A'',
                ''/s/a.v0.tank_comments.yml'' \<mapsto> ''{broken''],
      trace = []\<rparr>"

definition vdir_world :: world where
  "vdir_world =
     \<lparr>files = [''/w/a.v1.ma'' \<mapsto> ''scene C'',
                ''/s/v1/a.2024-01-01-12-00-00.ma'' \<mapsto> ''scene A'',
                ''/s/v2/a.2024-05-05-10-30-00.ma'' \<mapsto> ''scene B''],
      trace = []\<rparr>"

definition demo_world_bad_stamp :: world where
  "demo_world_bad_stamp =
     \<lparr>files = [''/w/a.v1.ma'' \<mapsto> ''scene B'',
                ''/s/a.v1.2024-01-01-12-00-00.ma'' \<mapsto> ''scene A'',
                ''/s/a.v2.yesterday.ma'' \<mapsto> ''scene C''],
      trace = []\<rparr>"

section \<open>Unfolding rules\<close>

lemmas path_defs = basename_def dirname_def splitext_def

lemmas engine_defs =
  do_snapshot_def snapshot_to_def snapshot_fields_def save_current_file_def copy_file_def
  open_file_def log_debug_def log_warning_def path_exists_def add_snapshot_comment_def
  get_comments_file_path_def get_snapshot_comments_def restore_snapshot_def
  restore_copy_open_def squote_def find_snapshot_history_def
  history_details_def get_thumbnail_file_path_def find_next_snapshot_increment_def

lemmas demo_defs =
  demo_app_def lazy_app_def vdir_app_def demo_world_def demo_world_snap_def
  demo_world_bad_store_def demo_world_bad_stamp_def demo_work_template_def
  demo_snapshot_template_def vdir_snapshot_template_def table_template_def
  demo_work_apply_def demo_snapshot_apply_def vdir_snapshot_apply_def digit_def
  demo_strptime_def demo_paths_def demo_copy_def demo_yaml_load_def demo_yaml_dump_def
  vdir_paths_def vdir_yaml_load_def vdir_yaml_dump_def vdir_world_def

section \<open>Traces only grow\<close>

lemma add_snapshot_comment_trace:
  "\<exists>evs. trace (snd (add_snapshot_comment E p c w)) = trace w @ evs"
  by (auto simp: add_snapshot_comment_def log_warning_def log_debug_def Let_def
      split: sum.splits option.splits yaml_doc.splits)

lemma snapshot_to_trace:
  "\<exists>evs. trace (snd (snapshot_to E wp sp None c w)) = trace w @ evs"
proof -
  obtain r disk' where cp: "hook_copy_file E wp sp (files w) = (r, disk')"
    by (cases "hook_copy_file E wp sp (files w)")
  let ?w3 = "w\<lparr>files := disk',
               trace := trace w @ [EvDebug (''Snapshot: Copying '' @ wp @ '' --> '' @ sp),
                                   EvCopy wp sp]\<rparr>"
  obtain evs where "trace (snd (add_snapshot_comment E sp c ?w3)) = trace ?w3 @ evs"
    using add_snapshot_comment_trace by blast
  then show ?thesis using cp
    by (cases r; cases "add_snapshot_comment E sp c ?w3")
       (auto simp: snapshot_to_def copy_file_def log_debug_def Let_def split: option.splits)
qed

lemma do_snapshot_trace:
  "\<exists>evs. trace (snd (do_snapshot E wp None c w)) = trace w @ EvSave # evs"
proof -
  obtain r disk where sv: "hook_save E (files w) = (r, disk)"
    by (cases "hook_save E (files w)")
  let ?w1 = "w\<lparr>files := disk, trace := trace w @ [EvSave]\<rparr>"
  have "\<And>sp. \<exists>evs. trace (snd (snapshot_to E wp sp None c ?w1)) = trace ?w1 @ evs"
    using snapshot_to_trace by blast
  then show ?thesis using sv
    by (cases r) (auto simp: do_snapshot_def save_current_file_def split: sum.splits)
qed

lemma restore_copy_open_trace:
  "\<exists>evs. trace (snd (restore_copy_open E sp wp w)) =
     trace w @ EvDebug (''Snapshot Restore: Copying '' @ wp @ '' --> '' @ sp) # EvCopy sp wp # evs"
  by (cases "hook_copy_file E sp wp (files w)"; cases "fst (hook_copy_file E sp wp (files w))";
      cases "hook_open E wp (snd (hook_copy_file E sp wp (files w)))")
     (auto simp: restore_copy_open_def copy_file_def open_file_def log_debug_def)

section \<open>Restoring a snapshot\<close>

lemma do_snapshot_writes_comment:
  assumes "c \<noteq> []"
    and "hook_save E (files w) = (None, disk1)"
    and "disk1 work_path \<noteq> None"
    and "validate (work_template E) work_path"
    and "get_fields (work_template E) work_path = Inr wflds"
    and "apply_fields (snapshot_template E) (snapshot_fields E wflds) = Inr backup"
    and "hook_copy_file E work_path backup disk1 = (None, disk2)"
    and "disk2 backup \<noteq> None"
    and "validate (snapshot_template E) backup"
    and "get_comments_file_path E backup = Inr cfp"
    and "(case disk2 cfp of None \<Rightarrow> Inr (YDict Map.empty) | Some content \<Rightarrow> yaml_load E content)
           = Inr (YDict comments)"
  shows "fst (do_snapshot E work_path None c w) = None
         \<and> files (snd (do_snapshot E work_path None c w))
             = disk2(cfp \<mapsto> yaml_dump E (comments(basename backup \<mapsto> c)))"
proof (cases "disk2 cfp")
  case None
  then have "comments = Map.empty" using assms(11) by simp
  then show ?thesis using assms None
    by (simp add: do_snapshot_def snapshot_to_def save_current_file_def path_exists_def
        copy_file_def log_debug_def add_snapshot_comment_def)
next
  case (Some content)
  then have "yaml_load E content = Inr (YDict comments)" using assms(11) by simp
  then show ?thesis using assms Some
    by (simp add: do_snapshot_def snapshot_to_def save_current_file_def path_exists_def
        copy_file_def log_debug_def add_snapshot_comment_def)
qed

text \<open>
  C1. When \<open>restore_snapshot\<close> has saved the scene, the snapshot path is valid and the
  work path derived from it exists on disk, the method first runs the whole of
  \<open>do_snapshot\<close> on that work path, with no thumbnail and the comment
  ``Automatic snapshot before restoring older snapshot '\<open>name\<close>''', where \<open>name\<close> is the
  base name of the snapshot being restored. When that snapshot raises, the restore
  returns the same error in the world the snapshot left: nothing is copied to the work
  path afterwards. When it succeeds, the copy of the snapshot to the work path follows
  it. The events of the safety snapshot start right after the save of the restore. And
  when the steps of the safety snapshot go through (its save, its checks of the work
  path, the path \<open>backup\<close> of the new snapshot, the copy, a store that reads as a
  dictionary), it does not raise and leaves the disk of its copy with one change: the
  store of \<open>backup\<close> holds that comment under the base name of \<open>backup\<close>.
\<close>

theorem restore_snapshots_work_file_first:
  assumes "snapshot_path \<noteq> []"
    and "hook_save E (files w) = (None, disk)"
    and "validate (snapshot_template E) snapshot_path"
    and "get_fields (snapshot_template E) snapshot_path = Inr flds"
    and "apply_fields (work_template E) flds = Inr work_path"
    and "disk work_path \<noteq> None"
    and "do_snapshot E work_path None
           (''Automatic snapshot before restoring older snapshot ''
              @ squote (basename snapshot_path))
           (w\<lparr>files := disk, trace := trace w @ [EvSave]\<rparr>) = (r, w2)"
  shows "restore_snapshot E snapshot_path w =
           (case r of
              Some e \<Rightarrow> (Some e, w2)
            | None \<Rightarrow> restore_copy_open E snapshot_path work_path w2)
         \<and> (\<exists>evs. trace w2 = trace w @ EvSave # EvSave # evs)
         \<and> (\<exists>evs. trace (snd (restore_copy_open E snapshot_path work_path w2)) =
                trace w2 @ EvDebug (''Snapshot Restore: Copying '' @ work_path
                                      @ '' --> '' @ snapshot_path)
                         # EvCopy snapshot_path work_path # evs)
         \<and> (hook_save E disk = (None, disk1)
              \<and> disk1 work_path \<noteq> None
              \<and> validate (work_template E) work_path
              \<and> get_fields (work_template E) work_path = Inr wflds
              \<and> apply_fields (snapshot_template E) (snapshot_fields E wflds) = Inr backup
              \<and> hook_copy_file E work_path backup disk1 = (None, disk2)
              \<and> disk2 backup \<noteq> None
              \<and> validate (snapshot_template E) backup
              \<and> get_comments_file_path E backup = Inr cfp
              \<and> (case disk2 cfp of None \<Rightarrow> Inr (YDict Map.empty)
                   | Some content \<Rightarrow> yaml_load E content) = Inr (YDict comments)
             \<longrightarrow> r = None
                \<and> files w2 =
                    disk2(cfp \<mapsto> yaml_dump E (comments(basename backup \<mapsto>
                      ''Automatic snapshot before restoring older snapshot ''
                        @ squote (basename snapshot_path)))))"
proof -
  let ?w1 = "w\<lparr>files := disk, trace := trace w @ [EvSave]\<rparr>"
  let ?c = "''Automatic snapshot before restoring older snapshot ''
              @ squote (basename snapshot_path)"
  have "restore_snapshot E snapshot_path w =
          (case r of Some e \<Rightarrow> (Some e, w2)
           | None \<Rightarrow> restore_copy_open E snapshot_path work_path w2)"
    using assms
    by (cases r) (simp_all add: restore_snapshot_def save_current_file_def path_exists_def)
  moreover have "\<exists>evs. trace w2 = trace w @ EvSave # EvSave # evs"
    using do_snapshot_trace [of E work_path ?c ?w1] assms(7)
    by simp
  moreover have "r = None \<and> files w2 = disk2(cfp \<mapsto> yaml_dump E (comments(basename backup \<mapsto> ?c)))"
    if "hook_save E disk = (None, disk1)" and "disk1 work_path \<noteq> None"
      and "validate (work_template E) work_path"
      and "get_fields (work_template E) work_path = Inr wflds"
      and "apply_fields (snapshot_template E) (snapshot_fields E wflds) = Inr backup"
      and "hook_copy_file E work_path backup disk1 = (None, disk2)"
      and "disk2 backup \<noteq> None"
      and "validate (snapshot_template E) backup"
      and "get_comments_file_path E backup = Inr cfp"
      and "(case disk2 cfp of None \<Rightarrow> Inr (YDict Map.empty)
            | Some content \<Rightarrow> yaml_load E content) = Inr (YDict comments)"
  proof -
    have ne: "?c \<noteq> []" by simp
    have sv: "hook_save E (files ?w1) = (None, disk1)" using that(1) by simp
    show ?thesis
      using do_snapshot_writes_comment [OF ne sv that(2-10)] assms(7) by simp
  qed
  ultimately show ?thesis
    using restore_copy_open_trace by blast
qed

text \<open>
  On the example disk with a work file and one snapshot: with the copy hook that copies,
  the safety snapshot succeeds, the work file is saved as a new snapshot, the store holds
  the comment of the automatic snapshot, and the restore then copies the old snapshot
  over the work file; with the copy hook that copies nothing, the safety snapshot fails
  its check and the restore stops there, the work file untouched.
\<close>

theorem restore_snapshots_work_file_first_witness:
  "fst (restore_snapshot demo_app ''/s/a.v1.2024-01-01-12-00-00.ma'' demo_world_snap) = None
   \<and> files (snd (restore_snapshot demo_app ''/s/a.v1.2024-01-01-12-00-00.ma'' demo_world_snap))
        ''/s/a.v1.2024-05-05-10-30-00.ma'' = Some ''scene B''
   \<and> files (snd (restore_snapshot demo_app ''/s/a.v1.2024-01-01-12-00-00.ma'' demo_world_snap))
        ''/s/a.v0.tank_comments.yml''
       = Some (''5:Automatic snapshot before restoring older snapshot ''
                 @ squote ''a.v1.2024-01-01-12-00-00.ma'')
   \<and> files (snd (restore_snapshot demo_app ''/s/a.v1.2024-01-01-12-00-00.ma'' demo_world_snap))
        ''/w/a.v1.ma'' = Some ''scene A''
   \<and> restore_snapshot lazy_app ''/s/a.v1.2024-01-01-12-00-00.ma'' demo_world_snap =
       (Some (TankError (''Snapshot: Failed to copy work file from '' @ squote ''/w/a.v1.ma''
                           @ '' to '' @ squote ''/s/a.v1.2024-05-05-10-30-00.ma'')),
        demo_world_snap\<lparr>trace := [EvSave, EvSave,
           EvDebug ''Snapshot: Copying /w/a.v1.ma --> /s/a.v1.2024-05-05-10-30-00.ma'',
           EvCopy ''/w/a.v1.ma'' ''/s/a.v1.2024-05-05-10-30-00.ma'']\<rparr>)"
proof -
  let ?sp = "''/s/a.v1.2024-01-01-12-00-00.ma''"
  let ?wp = "''/w/a.v1.ma''"
  let ?bk = "''/s/a.v1.2024-05-05-10-30-00.ma''"
  let ?cfp = "''/s/a.v0.tank_comments.yml''"
  let ?c = "''Automatic snapshot before restoring older snapshot '' @ squote (basename ?sp)"
  let ?flds = "map_of [(''name'', FStr ''a''), (''version'', FInt 1),
                       (''timestamp'', FStr ''2024-01-01-12-00-00'')]"
  let ?wflds = "map_of [(''name'', FStr ''a''), (''version'', FInt 1)]"
  let ?disk = "files demo_world_snap"
  let ?w1 = "demo_world_snap\<lparr>files := ?disk, trace := trace demo_world_snap @ [EvSave]\<rparr>"
  have n: "?sp \<noteq> []" by simp
  have s1: "hook_save demo_app ?disk = (None, ?disk)"
    and s2: "hook_save lazy_app ?disk = (None, ?disk)"
    by (simp_all add: demo_defs)
  have v1: "validate (snapshot_template demo_app) ?sp"
    and v2: "validate (snapshot_template lazy_app) ?sp"
    by (simp_all add: demo_defs)
  have g1: "get_fields (snapshot_template demo_app) ?sp = Inr ?flds"
    and g2: "get_fields (snapshot_template lazy_app) ?sp = Inr ?flds"
    by (simp_all add: demo_defs)
  have a1: "apply_fields (work_template demo_app) ?flds = Inr ?wp"
    and a2: "apply_fields (work_template lazy_app) ?flds = Inr ?wp"
    by (simp_all add: demo_defs)
  have x: "?disk ?wp \<noteq> None"
    by (simp add: demo_defs)
  have d2: "do_snapshot lazy_app ?wp None ?c ?w1
            = (Some (TankError (''Snapshot: Failed to copy work file from '' @ squote ?wp
                                  @ '' to '' @ squote ?bk)),
               demo_world_snap\<lparr>trace := [EvSave, EvSave,
                  EvDebug ''Snapshot: Copying /w/a.v1.ma --> /s/a.v1.2024-05-05-10-30-00.ma'',
                  EvCopy ?wp ?bk]\<rparr>)"
    by (simp add: engine_defs demo_defs path_defs)
  note ko = restore_snapshots_work_file_first [OF n s2 v2 g2 a2 x d2, THEN conjunct1]
  obtain r w2 where d1: "do_snapshot demo_app ?wp None ?c ?w1 = (r, w2)"
    by (cases "do_snapshot demo_app ?wp None ?c ?w1")
  note ok = restore_snapshots_work_file_first [OF n s1 v1 g1 a1 x d1,
      of ?disk ?wflds ?bk "?disk(?bk \<mapsto> ''scene B'')" ?cfp Map.empty]
  have wv: "validate (work_template demo_app) ?wp"
    and wg: "get_fields (work_template demo_app) ?wp = Inr ?wflds"
    and wa: "apply_fields (snapshot_template demo_app) (snapshot_fields demo_app ?wflds) = Inr ?bk"
    and wc: "hook_copy_file demo_app ?wp ?bk ?disk = (None, ?disk(?bk \<mapsto> ''scene B''))"
    and wb: "validate (snapshot_template demo_app) ?bk"
    and wp: "get_comments_file_path demo_app ?bk = Inr ?cfp"
    and wl: "(case (?disk(?bk \<mapsto> ''scene B'')) ?cfp of None \<Rightarrow> Inr (YDict Map.empty)
              | Some content \<Rightarrow> yaml_load demo_app content) = Inr (YDict Map.empty)"
    by (simp_all add: snapshot_fields_def get_comments_file_path_def demo_defs path_defs)
  have bn: "basename ?bk = ''a.v1.2024-05-05-10-30-00.ma''"
    and bs: "basename ?sp = ''a.v1.2024-01-01-12-00-00.ma''"
    by (simp_all add: path_defs)
  have r: "r = None"
    and f: "files w2 = (?disk(?bk \<mapsto> ''scene B''))
              (?cfp \<mapsto> yaml_dump demo_app (Map.empty(basename ?bk \<mapsto> ?c)))"
    using ok s1 x wv wg wa wc wb wp wl by simp_all
  have res: "restore_snapshot demo_app ?sp demo_world_snap = restore_copy_open demo_app ?sp ?wp w2"
    using ok r by simp
  have dump: "yaml_dump demo_app (Map.empty(basename ?bk \<mapsto> ?c)) = ''5:'' @ ?c"
    unfolding bn by (simp add: demo_defs)
  have f': "files w2 = ?disk(?bk \<mapsto> ''scene B'', ?cfp \<mapsto> ''5:'' @ ?c)"
    using f dump by simp
  have sp_in: "files w2 ?sp = Some ''scene A''"
    unfolding f' by (simp add: demo_world_snap_def)
  have fin: "fst (restore_copy_open demo_app ?sp ?wp w2) = None
             \<and> files (snd (restore_copy_open demo_app ?sp ?wp w2))
                 = (files w2)(?wp \<mapsto> ''scene A'')"
    by (simp add: restore_copy_open_def copy_file_def open_file_def log_debug_def sp_in
        demo_app_def demo_copy_def)
  have p1: "fst (restore_snapshot demo_app ?sp demo_world_snap) = None"
    and p2: "files (snd (restore_snapshot demo_app ?sp demo_world_snap)) ?bk = Some ''scene B''"
    and p3: "files (snd (restore_snapshot demo_app ?sp demo_world_snap)) ?cfp
               = Some (''5:Automatic snapshot before restoring older snapshot ''
                         @ squote ''a.v1.2024-01-01-12-00-00.ma'')"
    and p4: "files (snd (restore_snapshot demo_app ?sp demo_world_snap)) ?wp = Some ''scene A''"
    unfolding res using fin by (simp_all add: f' bs)
  have p5: "restore_snapshot lazy_app ?sp demo_world_snap =
              (Some (TankError (''Snapshot: Failed to copy work file from '' @ squote ?wp
                                  @ '' to '' @ squote ?bk)),
               demo_world_snap\<lparr>trace := [EvSave, EvSave,
                  EvDebug ''Snapshot: Copying /w/a.v1.ma --> /s/a.v1.2024-05-05-10-30-00.ma'',
                  EvCopy ?wp ?bk]\<rparr>)"
    using ko by (simp only: option.case)
  show ?thesis
    using p1 p2 p3 p4 p5 by blast
qed

section \<open>Taking a snapshot\<close>

text \<open>
  C2. The increment allocator \<open>find_next_snapshot_increment\<close> has no body in the source:
  called as \<open>do_snapshot\<close> calls it, with an empty dictionary, it returns
  \<^verbatim>\<open>None\<close> and not the increment 1 of a family with no snapshot; and it returns
  \<^verbatim>\<open>None\<close> for every argument, so no family gets the maximum of its increments
  plus one.
\<close>

theorem increment_allocator_returns_none:
  "find_next_snapshot_increment Map.empty = FNone
   \<and> find_next_snapshot_increment Map.empty \<noteq> FInt 1
   \<and> find_next_snapshot_increment [''increment'' \<mapsto> FInt 4] \<noteq> FInt 5"
  by (simp add: find_next_snapshot_increment_def)

text \<open>
  C5. In every call of \<open>do_snapshot\<close> that reaches the copy (the save succeeded, the
  work path exists and is a valid work path, its fields and the snapshot path were found):
  when the copy hook returns without an error and the snapshot path is not on disk
  afterwards, \<open>do_snapshot\<close> raises the \<open>TankError\<close> ``Failed to copy work file'',
  right after the call of the hook; no comment is written.
\<close>

theorem do_snapshot_verifies_copy:
  assumes "hook_save E (files w) = (None, disk)"
    and "disk work_path \<noteq> None"
    and "validate (work_template E) work_path"
    and "get_fields (work_template E) work_path = Inr flds"
    and "apply_fields (snapshot_template E) (snapshot_fields E flds) = Inr snapshot_path"
    and "hook_copy_file E work_path snapshot_path disk = (None, disk')"
    and "disk' snapshot_path = None"
  shows "do_snapshot E work_path thumbnail comment w =
           (Some (TankError (''Snapshot: Failed to copy work file from '' @ squote work_path
                               @ '' to '' @ squote snapshot_path)),
            w\<lparr>files := disk',
              trace := trace w @ [EvSave,
                 EvDebug (''Snapshot: Copying '' @ work_path @ '' --> '' @ snapshot_path),
                 EvCopy work_path snapshot_path]\<rparr>)"
  using assms
  by (simp add: do_snapshot_def snapshot_to_def save_current_file_def path_exists_def
      copy_file_def log_debug_def)

text \<open>
  With the copy hook of the example that reports success and copies nothing, the snapshot
  of the work file fails with that error.
\<close>

theorem do_snapshot_verifies_copy_witness:
  "hook_copy_file lazy_app ''/w/a.v1.ma'' ''/s/a.v1.2024-05-05-10-30-00.ma'' (files demo_world)
     = (None, files demo_world)
   \<and> do_snapshot lazy_app ''/w/a.v1.ma'' None ''first try'' demo_world =
       (Some (TankError (''Snapshot: Failed to copy work file from '' @ squote ''/w/a.v1.ma''
                           @ '' to '' @ squote ''/s/a.v1.2024-05-05-10-30-00.ma'')),
        demo_world\<lparr>trace := [EvSave,
           EvDebug ''Snapshot: Copying /w/a.v1.ma --> /s/a.v1.2024-05-05-10-30-00.ma'',
           EvCopy ''/w/a.v1.ma'' ''/s/a.v1.2024-05-05-10-30-00.ma'']\<rparr>)"
proof -
  let ?wp = "''/w/a.v1.ma''"
  let ?sp = "''/s/a.v1.2024-05-05-10-30-00.ma''"
  let ?flds = "map_of [(''name'', FStr ''a''), (''version'', FInt 1)]"
  have s: "hook_save lazy_app (files demo_world) = (None, files demo_world)"
    by (simp add: demo_defs)
  have x: "files demo_world ?wp \<noteq> None"
    by (simp add: demo_defs)
  have v: "validate (work_template lazy_app) ?wp"
    by (simp add: demo_defs)
  have g: "get_fields (work_template lazy_app) ?wp = Inr ?flds"
    by (simp add: demo_defs)
  have a: "apply_fields (snapshot_template lazy_app) (snapshot_fields lazy_app ?flds) = Inr ?sp"
    by (simp add: snapshot_fields_def demo_defs)
  have c: "hook_copy_file lazy_app ?wp ?sp (files demo_world) = (None, files demo_world)"
    by (simp add: demo_defs)
  have m: "files demo_world ?sp = None"
    by (simp add: demo_defs)
  have e: "demo_world\<lparr>files := files demo_world,
             trace := trace demo_world @ [EvSave,
               EvDebug (''Snapshot: Copying '' @ ?wp @ '' --> '' @ ?sp), EvCopy ?wp ?sp]\<rparr>
           = demo_world\<lparr>trace := [EvSave,
               EvDebug ''Snapshot: Copying /w/a.v1.ma --> /s/a.v1.2024-05-05-10-30-00.ma'',
               EvCopy ?wp ?sp]\<rparr>"
    by (simp add: demo_world_def)
  show ?thesis
    using c do_snapshot_verifies_copy [OF s x v g a c m, of None "''first try''"]
    unfolding e by blast
qed

text \<open>
  C7. In every call of \<open>do_snapshot\<close>, whatever the save hook returns: when the work
  path is not on disk after the save, or is no valid work path, the call raises and
  nothing but the save has happened (no copy, no comment, no thumbnail). Unless the save
  itself raised, the error is ``Work file ... could not be found on disk!'' for a path
  that is not on disk, and ``Unable to snapshot non-work file ...'' for a path on disk
  that the work template rejects.
\<close>

theorem do_snapshot_rejects_work_path:
  assumes "hook_save E (files w) = (r, disk)"
    and "disk work_path = None \<or> \<not> validate (work_template E) work_path"
  shows "do_snapshot E work_path thumbnail comment w =
           (Some (case r of
                    Some e \<Rightarrow> e
                  | None \<Rightarrow>
                      if disk work_path = None
                      then TankError (''Snapshot: Work file '' @ work_path
                                        @ '' could not be found on disk!'')
                      else TankError (''Unable to snapshot non-work file '' @ work_path)),
            w\<lparr>files := disk, trace := trace w @ [EvSave]\<rparr>)"
  using assms
  by (cases r) (auto simp: do_snapshot_def save_current_file_def path_exists_def)

text \<open>
  On the example disk, the work path of version 2 is not on disk, and the notes file is on
  disk and is no work file.
\<close>

theorem do_snapshot_rejects_work_path_witness:
  "do_snapshot demo_app ''/w/a.v2.ma'' None ''note'' demo_world =
     (Some (TankError ''Snapshot: Work file /w/a.v2.ma could not be found on disk!''),
      demo_world\<lparr>trace := [EvSave]\<rparr>)
   \<and> do_snapshot demo_app ''/x/notes.txt'' None ''note'' demo_world =
     (Some (TankError ''Unable to snapshot non-work file /x/notes.txt''),
      demo_world\<lparr>trace := [EvSave]\<rparr>)"
proof -
  have s: "hook_save demo_app (files demo_world) = (None, files demo_world)"
    by (simp add: demo_defs)
  have b1: "files demo_world ''/w/a.v2.ma'' = None
            \<or> \<not> validate (work_template demo_app) ''/w/a.v2.ma''"
    by (simp add: demo_defs)
  have b2: "files demo_world ''/x/notes.txt'' = None
            \<or> \<not> validate (work_template demo_app) ''/x/notes.txt''"
    by (simp add: demo_defs)
  have e: "demo_world\<lparr>files := files demo_world, trace := trace demo_world @ [EvSave]\<rparr>
           = demo_world\<lparr>trace := [EvSave]\<rparr>"
    by (simp add: demo_world_def)
  have x: "files demo_world ''/w/a.v2.ma'' = None" "files demo_world ''/x/notes.txt'' \<noteq> None"
    by (simp_all add: demo_defs)
  show ?thesis
    using do_snapshot_rejects_work_path [OF s b1, of None "''note''"]
      do_snapshot_rejects_work_path [OF s b2, of None "''note''"]
    unfolding e by (simp add: x)
qed

section \<open>Comments\<close>

text \<open>
  C10. For every path that the snapshot template does not validate,
  \<open>add_snapshot_comment\<close> returns without an error, logs the warning ``Could not add
  comment to invalid snapshot path ...'' and does nothing else: the file system is the one
  it was called in, so no comments file is created or changed.
\<close>

theorem add_comment_invalid_path_noop:
  assumes "\<not> validate (snapshot_template E) p"
  shows "add_snapshot_comment E p c w =
           (None, w\<lparr>trace := trace w @
              [EvWarning (''Could not add comment to invalid snapshot path '' @ p @ ''!'')]\<rparr>)
         \<and> files (snd (add_snapshot_comment E p c w)) = files w"
  using assms by (simp add: add_snapshot_comment_def log_warning_def)

theorem add_comment_invalid_path_noop_witness:
  "\<not> validate (snapshot_template demo_app) ''/x/notes.txt''
   \<and> add_snapshot_comment demo_app ''/x/notes.txt'' ''hello'' demo_world =
       (None, demo_world\<lparr>trace :=
          [EvWarning ''Could not add comment to invalid snapshot path /x/notes.txt!'']\<rparr>)
   \<and> files (snd (add_snapshot_comment demo_app ''/x/notes.txt'' ''hello'' demo_world))
       = files demo_world"
proof -
  have v: "\<not> validate (snapshot_template demo_app) ''/x/notes.txt''"
    by (simp add: demo_defs)
  have e: "demo_world\<lparr>trace := trace demo_world @
             [EvWarning (''Could not add comment to invalid snapshot path ''
                           @ ''/x/notes.txt'' @ ''!'')]\<rparr>
           = demo_world\<lparr>trace :=
             [EvWarning ''Could not add comment to invalid snapshot path /x/notes.txt!'']\<rparr>"
    by (simp add: demo_world_def)
  show ?thesis
    using v add_comment_invalid_path_noop [OF v, of "''hello''" demo_world]
    unfolding e by blast
qed

section \<open>History\<close>

text \<open>
  C6. For every file path that neither the work template nor the snapshot template
  validates, \<open>find_snapshot_history\<close> returns the empty list and no error. And whenever
  the fields of the path were found and the listing of the matching snapshot paths is
  empty, it returns the empty list at once: the world is the one it was called in, no
  comments file has been read.
\<close>

theorem history_empty_cases:
  "(\<not> validate (work_template E) p \<and> \<not> validate (snapshot_template E) p
      \<longrightarrow> find_snapshot_history E p w = (Inr [], w))
   \<and> (((validate (work_template E) p \<and> get_fields (work_template E) p = Inr flds)
         \<or> (validate (snapshot_template E) p \<and> get_fields (snapshot_template E) p = Inr flds
             \<and> \<not> validate (work_template E) p))
        \<and> paths_from_template E (files w) flds [''version'', ''timestamp'', ''increment''] = []
      \<longrightarrow> find_snapshot_history E p w = (Inr [], w))"
  by (auto simp: find_snapshot_history_def)

text \<open>
  On the example disk without snapshots: the notes file is no work file and no snapshot,
  and the work file has no snapshot yet.
\<close>

theorem history_empty_cases_witness:
  "\<not> validate (work_template demo_app) ''/x/notes.txt''
   \<and> \<not> validate (snapshot_template demo_app) ''/x/notes.txt''
   \<and> find_snapshot_history demo_app ''/x/notes.txt'' demo_world = (Inr [], demo_world)
   \<and> validate (work_template demo_app) ''/w/a.v1.ma''
   \<and> paths_from_template demo_app (files demo_world)
        (map_of [(''name'', FStr ''a''), (''version'', FInt 1)])
        [''version'', ''timestamp'', ''increment''] = []
   \<and> find_snapshot_history demo_app ''/w/a.v1.ma'' demo_world = (Inr [], demo_world)"
proof -
  let ?flds = "map_of [(''name'', FStr ''a''), (''version'', FInt 1)]"
  have n: "\<not> validate (work_template demo_app) ''/x/notes.txt''
           \<and> \<not> validate (snapshot_template demo_app) ''/x/notes.txt''"
    by (simp add: demo_defs)
  have v: "validate (work_template demo_app) ''/w/a.v1.ma''"
    and g: "get_fields (work_template demo_app) ''/w/a.v1.ma'' = Inr ?flds"
    and l: "paths_from_template demo_app (files demo_world) ?flds
              [''version'', ''timestamp'', ''increment''] = []"
    by (simp_all add: demo_defs)
  have h1: "find_snapshot_history demo_app ''/x/notes.txt'' demo_world = (Inr [], demo_world)"
    using history_empty_cases [of demo_app "''/x/notes.txt''" demo_world ?flds] n by blast
  have h2: "find_snapshot_history demo_app ''/w/a.v1.ma'' demo_world = (Inr [], demo_world)"
    using history_empty_cases [of demo_app "''/w/a.v1.ma''" demo_world ?flds] v g l by blast
  show ?thesis using n v l h1 h2 by blast
qed

section \<open>A comments store that does not parse\<close>

text \<open>
  C3, as the code has it. When the comments file of a snapshot path exists and
  \<^verbatim>\<open>yaml.load\<close> raises on its content, each of the two reads of the store raises
  that error: \<open>get_snapshot_comments\<close> returns it, and so does \<open>add_snapshot_comment\<close>
  on a valid snapshot path. Neither read logs a warning or goes on with an empty
  dictionary, and the store file is not written.
\<close>

theorem malformed_store_read_raises:
  assumes "get_comments_file_path E p = Inr cfp"
    and "files w cfp = Some content"
    and "yaml_load E content = Inl e"
  shows "get_snapshot_comments E p w = (Inl e, w\<lparr>trace := trace w @ [EvYamlLoad cfp]\<rparr>)
         \<and> (validate (snapshot_template E) p \<longrightarrow>
              add_snapshot_comment E p c w =
                (Some e, w\<lparr>trace := trace w @
                   [EvDebug (''Snapshot: Adding comment to file '' @ cfp), EvYamlLoad cfp]\<rparr>))"
  using assms
  by (simp add: get_snapshot_comments_def add_snapshot_comment_def log_debug_def)

text \<open>
  On the example disk whose comments store holds \<^verbatim>\<open>{broken\<close>: both reads raise the
  parser's error.
\<close>

theorem malformed_store_read_raises_witness:
  "yaml_load demo_app ''{broken'' = Inl (YAMLError ''could not parse'')
   \<and> get_snapshot_comments demo_app ''/s/a.v1.2024-01-01-12-00-00.ma'' demo_world_bad_store =
       (Inl (YAMLError ''could not parse''),
        demo_world_bad_store\<lparr>trace := [EvYamlLoad ''/s/a.v0.tank_comments.yml'']\<rparr>)
   \<and> add_snapshot_comment demo_app ''/s/a.v1.2024-01-01-12-00-00.ma'' ''note''
         demo_world_bad_store =
       (Some (YAMLError ''could not parse''),
        demo_world_bad_store\<lparr>trace :=
          [EvDebug ''Snapshot: Adding comment to file /s/a.v0.tank_comments.yml'',
           EvYamlLoad ''/s/a.v0.tank_comments.yml'']\<rparr>)"
proof -
  let ?sp = "''/s/a.v1.2024-01-01-12-00-00.ma''"
  let ?cfp = "''/s/a.v0.tank_comments.yml''"
  have p: "get_comments_file_path demo_app ?sp = Inr ?cfp"
    by (simp add: get_comments_file_path_def demo_defs path_defs)
  have f: "files demo_world_bad_store ?cfp = Some ''{broken''"
    by (simp add: demo_defs)
  have y: "yaml_load demo_app ''{broken'' = Inl (YAMLError ''could not parse'')"
    by (simp add: demo_defs)
  have v: "validate (snapshot_template demo_app) ?sp"
    by (simp add: demo_defs)
  have e1: "demo_world_bad_store\<lparr>trace := trace demo_world_bad_store @ [EvYamlLoad ?cfp]\<rparr>
            = demo_world_bad_store\<lparr>trace := [EvYamlLoad ?cfp]\<rparr>"
    by (simp add: demo_world_bad_store_def)
  have e2: "demo_world_bad_store\<lparr>trace := trace demo_world_bad_store @
              [EvDebug (''Snapshot: Adding comment to file '' @ ?cfp), EvYamlLoad ?cfp]\<rparr>
            = demo_world_bad_store\<lparr>trace :=
              [EvDebug ''Snapshot: Adding comment to file /s/a.v0.tank_comments.yml'',
               EvYamlLoad ?cfp]\<rparr>"
    by (simp add: demo_world_bad_store_def)
  show ?thesis
    using y v malformed_store_read_raises [OF p f y, of "''note''"]
    unfolding e1 e2 by blast
qed

text \<open>
  The claim as the specification words it (a store that does not parse is read as an
  empty dictionary with a warning, and never blocks a snapshot or a restore) fails on
  that disk: the read returns the error and logs no warning, a snapshot with a comment
  raises after its copy, a restore raises in its safety snapshot, and the history raises.
\<close>

theorem malformed_store_counterexample:
  "fst (get_snapshot_comments demo_app ''/s/a.v1.2024-01-01-12-00-00.ma'' demo_world_bad_store)
     = Inl (YAMLError ''could not parse'')
   \<and> fst (get_snapshot_comments demo_app ''/s/a.v1.2024-01-01-12-00-00.ma''
            demo_world_bad_store) \<noteq> Inr (YDict Map.empty)
   \<and> trace (snd (get_snapshot_comments demo_app ''/s/a.v1.2024-01-01-12-00-00.ma''
                   demo_world_bad_store)) = [EvYamlLoad ''/s/a.v0.tank_comments.yml'']
   \<and> fst (do_snapshot demo_app ''/w/a.v1.ma'' None ''note'' demo_world_bad_store)
       = Some (YAMLError ''could not parse'')
   \<and> fst (restore_snapshot demo_app ''/s/a.v1.2024-01-01-12-00-00.ma'' demo_world_bad_store)
       = Some (YAMLError ''could not parse'')
   \<and> files (snd (restore_snapshot demo_app ''/s/a.v1.2024-01-01-12-00-00.ma''
                   demo_world_bad_store)) ''/w/a.v1.ma'' = Some ''scene B''
   \<and> fst (find_snapshot_history demo_app ''/w/a.v1.ma'' demo_world_bad_store)
       = Inl (YAMLError ''could not parse'')"
  by (simp add: engine_defs demo_defs path_defs)

section \<open>A timestamp that does not parse\<close>

lemma history_loop_raises:
  "file \<in> set listing \<Longrightarrow> isl (history_details E comments file)
     \<Longrightarrow> isl (history_loop E comments listing history)"
  by (induction listing arbitrary: history) (auto split: sum.splits)

lemma history_loop_first_error:
  "list_all (\<lambda>f. \<not> isl (history_details E comments f)) pre
     \<Longrightarrow> history_details E comments file = Inl e
     \<Longrightarrow> history_loop E comments (pre @ file # post) history = Inl e"
  by (induction pre arbitrary: history) (auto split: sum.splits)

lemma history_details_unparsable:
  assumes "get_fields (snapshot_template E) file = Inr flds"
    and "flds ''timestamp'' = Some (FStr ts)" and "ts \<noteq> []"
    and "strptime E ts = Inl e"
  shows "isl (history_details E comments file)"
  using assms by (cases comments) (simp_all add: history_details_def)

lemma find_snapshot_history_loop:
  assumes "file_path \<noteq> []"
    and "(validate (work_template E) file_path
            \<and> get_fields (work_template E) file_path = Inr wflds)
         \<or> (validate (snapshot_template E) file_path
             \<and> get_fields (snapshot_template E) file_path = Inr wflds
             \<and> \<not> validate (work_template E) file_path)"
    and "paths_from_template E (files w) wflds [''version'', ''timestamp'', ''increment'']
           = first # others"
  shows "find_snapshot_history E file_path w =
           (case get_snapshot_comments E first w of
              (Inl e, w1) \<Rightarrow> (Inl e, w1)
            | (Inr comments, w1) \<Rightarrow> (history_loop E comments (first # others) [], w1))"
  using assms by (auto simp: find_snapshot_history_def)

lemma find_snapshot_history_raises:
  assumes l: "\<And>comments. isl (history_loop E comments listing [])"
    and fp: "file_path \<noteq> []"
    and tpl: "(validate (work_template E) file_path
                 \<and> get_fields (work_template E) file_path = Inr wflds)
              \<or> (validate (snapshot_template E) file_path
                  \<and> get_fields (snapshot_template E) file_path = Inr wflds
                  \<and> \<not> validate (work_template E) file_path)"
    and ls: "paths_from_template E (files w) wflds [''version'', ''timestamp'', ''increment'']
               = listing"
    and ne: "listing \<noteq> []"
  shows "isl (fst (find_snapshot_history E file_path w))"
proof -
  obtain first others where fo: "listing = first # others"
    using ne by (cases listing) auto
  obtain rc w1 where gc: "get_snapshot_comments E first w = (rc, w1)"
    by (cases "get_snapshot_comments E first w")
  have "isl (history_loop E comments (first # others) [])" for comments
    using l [of comments] fo by simp
  then show ?thesis
    using find_snapshot_history_loop [OF fp tpl, of w first others] ls fo gc
    by (cases rc) simp_all
qed

text \<open>
  C4, as the code has it. Take a snapshot path with fields \<open>flds\<close>.

  When its \<open>timestamp\<close> field is a string that is not empty and that
  \<^verbatim>\<open>strptime\<close> rejects with the error \<open>e\<close>: the body of the history loop raises
  \<open>e\<close> for that path; the loop over a listing that holds the path returns \<open>e\<close> when
  the entries of the paths listed before it were built, and in any case returns an error
  and no entry; \<open>find_snapshot_history\<close> returns \<open>e\<close> when in addition the comments
  store was read as a dictionary, and in any case returns an error and no history.

  The body of the loop returns an entry without datetime exactly when the field is
  missing, \<^verbatim>\<open>None\<close>, the empty string or the integer 0; the entry is then the one
  with the file, its comment, its thumbnail path, its version and its increment.
\<close>

theorem unparsable_timestamp_raises:
  assumes "get_fields (snapshot_template E) file = Inr flds"
  shows "(flds ''timestamp'' = Some (FStr ts) \<and> ts \<noteq> [] \<and> strptime E ts = Inl e
           \<longrightarrow> history_details E (YDict cm) file = Inl e
              \<and> (list_all (\<lambda>f. \<not> isl (history_details E (YDict cm) f)) pre
                   \<longrightarrow> history_loop E (YDict cm) (pre @ file # post) history = Inl e)
              \<and> (file \<in> set listing \<longrightarrow> isl (history_loop E comments listing history))
              \<and> (file_path \<noteq> []
                   \<and> ((validate (work_template E) file_path
                         \<and> get_fields (work_template E) file_path = Inr wflds)
                        \<or> (validate (snapshot_template E) file_path
                            \<and> get_fields (snapshot_template E) file_path = Inr wflds
                            \<and> \<not> validate (work_template E) file_path))
                   \<and> paths_from_template E (files w) wflds
                        [''version'', ''timestamp'', ''increment''] = pre @ file # post
                   \<and> get_snapshot_comments E (hd (pre @ file # post)) w = (Inr (YDict cm), w1)
                   \<and> list_all (\<lambda>f. \<not> isl (history_details E (YDict cm) f)) pre
                  \<longrightarrow> find_snapshot_history E file_path w = (Inl e, w1))
              \<and> (file_path \<noteq> []
                   \<and> ((validate (work_template E) file_path
                         \<and> get_fields (work_template E) file_path = Inr wflds)
                        \<or> (validate (snapshot_template E) file_path
                            \<and> get_fields (snapshot_template E) file_path = Inr wflds
                            \<and> \<not> validate (work_template E) file_path))
                   \<and> file \<in> set (paths_from_template E (files w) wflds
                                     [''version'', ''timestamp'', ''increment''])
                  \<longrightarrow> isl (fst (find_snapshot_history E file_path w))))
         \<and> ((\<exists>d. history_details E (YDict cm) file = Inr d \<and> he_datetime d = None)
              = (flds ''timestamp'' = None \<or> flds ''timestamp'' = Some FNone
                 \<or> flds ''timestamp'' = Some (FStr []) \<or> flds ''timestamp'' = Some (FInt 0)))
         \<and> (flds ''timestamp'' = None \<or> flds ''timestamp'' = Some FNone
              \<or> flds ''timestamp'' = Some (FStr []) \<or> flds ''timestamp'' = Some (FInt 0)
            \<longrightarrow> history_details E (YDict cm) file =
                  Inr \<lparr>he_file = file,
                       he_comment = (case cm (basename file) of None \<Rightarrow> [] | Some c \<Rightarrow> c),
                       he_thumbnail_path = get_thumbnail_file_path file,
                       he_version = flds ''version'', he_increment = flds ''increment'',
                       he_datetime = None\<rparr>)"
proof -
  let ?tpl = "(validate (work_template E) file_path
                 \<and> get_fields (work_template E) file_path = Inr wflds)
              \<or> (validate (snapshot_template E) file_path
                  \<and> get_fields (snapshot_template E) file_path = Inr wflds
                  \<and> \<not> validate (work_template E) file_path)"
  let ?ls = "paths_from_template E (files w) wflds [''version'', ''timestamp'', ''increment'']"
  let ?falsy = "flds ''timestamp'' = None \<or> flds ''timestamp'' = Some FNone
                \<or> flds ''timestamp'' = Some (FStr []) \<or> flds ''timestamp'' = Some (FInt 0)"
  have bad: "history_details E (YDict cm) file = Inl e
             \<and> (list_all (\<lambda>f. \<not> isl (history_details E (YDict cm) f)) pre
                  \<longrightarrow> history_loop E (YDict cm) (pre @ file # post) history = Inl e)
             \<and> (file \<in> set listing \<longrightarrow> isl (history_loop E comments listing history))
             \<and> (file_path \<noteq> [] \<and> ?tpl \<and> ?ls = pre @ file # post
                  \<and> get_snapshot_comments E (hd (pre @ file # post)) w = (Inr (YDict cm), w1)
                  \<and> list_all (\<lambda>f. \<not> isl (history_details E (YDict cm) f)) pre
                 \<longrightarrow> find_snapshot_history E file_path w = (Inl e, w1))
             \<and> (file_path \<noteq> [] \<and> ?tpl \<and> file \<in> set ?ls
                 \<longrightarrow> isl (fst (find_snapshot_history E file_path w)))"
    if t: "flds ''timestamp'' = Some (FStr ts)" and n: "ts \<noteq> []" and s: "strptime E ts = Inl e"
  proof -
    have d: "history_details E (YDict cm) file = Inl e"
      using assms t n s by (simp add: history_details_def)
    have lp: "history_loop E (YDict cm) (pre @ file # post) history = Inl e"
      if "list_all (\<lambda>f. \<not> isl (history_details E (YDict cm) f)) pre" for history
      using history_loop_first_error [OF that d] .
    have l: "\<And>listing comments history. file \<in> set listing
               \<Longrightarrow> isl (history_loop E comments listing history)"
      using history_loop_raises history_details_unparsable [OF assms t n s] by blast
    have fe: "find_snapshot_history E file_path w = (Inl e, w1)"
      if h1: "file_path \<noteq> []" and h2: ?tpl and h3: "?ls = pre @ file # post"
        and h4: "get_snapshot_comments E (hd (pre @ file # post)) w = (Inr (YDict cm), w1)"
        and h5: "list_all (\<lambda>f. \<not> isl (history_details E (YDict cm) f)) pre"
    proof -
      obtain first others where fo: "pre @ file # post = first # others"
        by (cases "pre @ file # post") auto
      have "find_snapshot_history E file_path w
              = (history_loop E (YDict cm) (first # others) [], w1)"
        using find_snapshot_history_loop [OF h1 h2, of w first others] h3 h4 fo by simp
      then show ?thesis using lp [OF h5, of "[]"] fo by simp
    qed
    have f: "isl (fst (find_snapshot_history E file_path w))"
      if h1: "file_path \<noteq> []" and h2: ?tpl and h3: "file \<in> set ?ls"
    proof (rule find_snapshot_history_raises [OF _ h1 h2 refl])
      show "\<And>comments. isl (history_loop E comments ?ls [])"
        using l h3 by blast
      show "?ls \<noteq> []"
        using h3 by auto
    qed
    show ?thesis using d lp l fe f by blast
  qed
  have good: "history_details E (YDict cm) file =
                Inr \<lparr>he_file = file,
                     he_comment = (case cm (basename file) of None \<Rightarrow> [] | Some c \<Rightarrow> c),
                     he_thumbnail_path = get_thumbnail_file_path file,
                     he_version = flds ''version'', he_increment = flds ''increment'',
                     he_datetime = None\<rparr>"
    if ?falsy
    using assms that by (auto simp: history_details_def)
  have only: ?falsy
    if "\<exists>d. history_details E (YDict cm) file = Inr d \<and> he_datetime d = None"
  proof (cases "flds ''timestamp''")
    case None
    then show ?thesis by simp
  next
    case (Some v)
    show ?thesis
    proof (cases v)
      case (FInt n)
      then show ?thesis using assms that Some
        by (cases "n = 0") (auto simp: history_details_def)
    next
      case (FStr t)
      then show ?thesis using assms that Some
        by (cases "t = []"; cases "strptime E t") (auto simp: history_details_def)
    next
      case FNone
      then show ?thesis using Some by simp
    qed
  qed
  have iff: "(\<exists>d. history_details E (YDict cm) file = Inr d \<and> he_datetime d = None) = ?falsy"
    using good only by auto
  show ?thesis using bad good iff by blast
qed

text \<open>
  On the example disk with the snapshot \<^verbatim>\<open>/s/a.v2.yesterday.ma\<close>: its timestamp
  ``yesterday'' is rejected, its entry raises, and the history of the work file is that
  error, after the entry of the snapshot listed before it was built. The snapshot path
  \<^verbatim>\<open>/s/a.v2.ma\<close> has no timestamp field, and its entry is returned without a
  datetime.
\<close>

theorem unparsable_timestamp_raises_witness:
  "strptime demo_app ''yesterday'' = Inl (ValueError ''time data does not match format'')
   \<and> history_details demo_app (YDict Map.empty) ''/s/a.v2.yesterday.ma''
       = Inl (ValueError ''time data does not match format'')
   \<and> history_loop demo_app (YDict Map.empty)
         [''/s/a.v1.2024-01-01-12-00-00.ma'', ''/s/a.v2.yesterday.ma''] []
       = Inl (ValueError ''time data does not match format'')
   \<and> find_snapshot_history demo_app ''/w/a.v1.ma'' demo_world_bad_stamp
       = (Inl (ValueError ''time data does not match format''), demo_world_bad_stamp)
   \<and> isl (history_loop demo_app YNotDict
             [''/s/a.v1.2024-01-01-12-00-00.ma'', ''/s/a.v2.yesterday.ma''] [])
   \<and> history_details demo_app (YDict Map.empty) ''/s/a.v2.ma'' =
       Inr \<lparr>he_file = ''/s/a.v2.ma'', he_comment = [],
            he_thumbnail_path = ''/s/a.v2.tank_thumb.png'',
            he_version = Some (FInt 2), he_increment = None, he_datetime = None\<rparr>"
proof -
  let ?good = "''/s/a.v1.2024-01-01-12-00-00.ma''"
  let ?bad = "''/s/a.v2.yesterday.ma''"
  let ?ls = "[?good, ?bad]"
  let ?flds = "map_of [(''name'', FStr ''a''), (''version'', FInt 2),
                       (''timestamp'', FStr ''yesterday'')]"
  let ?wflds = "map_of [(''name'', FStr ''a''), (''version'', FInt 1)]"
  let ?nflds = "map_of [(''name'', FStr ''a''), (''version'', FInt 2)]"
  let ?e = "ValueError ''time data does not match format''"
  have g: "get_fields (snapshot_template demo_app) ?bad = Inr ?flds"
    by (simp add: demo_defs)
  have t: "?flds ''timestamp'' = Some (FStr ''yesterday'')" by simp
  have n: "''yesterday'' \<noteq> []" by simp
  have s: "strptime demo_app ''yesterday'' = Inl ?e"
    by (simp add: demo_defs)
  have m: "?bad \<in> set ?ls" by simp
  have fp: "''/w/a.v1.ma'' \<noteq> []" by simp
  have v: "validate (work_template demo_app) ''/w/a.v1.ma''
           \<and> get_fields (work_template demo_app) ''/w/a.v1.ma'' = Inr ?wflds"
    by (simp add: demo_defs)
  have l: "paths_from_template demo_app (files demo_world_bad_stamp) ?wflds
             [''version'', ''timestamp'', ''increment''] = [?good] @ ?bad # []"
    by (simp add: demo_defs)
  have c: "get_snapshot_comments demo_app (hd ([?good] @ ?bad # [])) demo_world_bad_stamp
             = (Inr (YDict Map.empty), demo_world_bad_stamp)"
    by (simp add: get_snapshot_comments_def get_comments_file_path_def demo_defs path_defs)
  have p: "list_all (\<lambda>f. \<not> isl (history_details demo_app (YDict Map.empty) f)) [?good]"
    by (simp add: history_details_def get_thumbnail_file_path_def demo_defs path_defs)
  note bad = unparsable_timestamp_raises [OF g,
      where ts = "''yesterday''" and e = ?e and cm = Map.empty and pre = "[?good]"
        and post = "[]" and history = "[]" and listing = ?ls and comments = YNotDict
        and file_path = "''/w/a.v1.ma''" and wflds = ?wflds and w = demo_world_bad_stamp
        and ?w1.0 = demo_world_bad_stamp, THEN conjunct1]
  have b1: "history_details demo_app (YDict Map.empty) ?bad = Inl ?e"
    and b2: "history_loop demo_app (YDict Map.empty) ([?good] @ ?bad # []) [] = Inl ?e"
    and b3: "find_snapshot_history demo_app ''/w/a.v1.ma'' demo_world_bad_stamp
               = (Inl ?e, demo_world_bad_stamp)"
    and b4: "isl (history_loop demo_app YNotDict ?ls [])"
    using bad t n s m fp v l c p by blast+
  have g2: "get_fields (snapshot_template demo_app) ''/s/a.v2.ma'' = Inr ?nflds"
    by (simp add: demo_defs)
  have a: "?nflds ''timestamp'' = None" by simp
  have b5: "history_details demo_app (YDict Map.empty) ''/s/a.v2.ma'' =
              Inr \<lparr>he_file = ''/s/a.v2.ma'', he_comment = [],
                   he_thumbnail_path = ''/s/a.v2.tank_thumb.png'',
                   he_version = Some (FInt 2), he_increment = None, he_datetime = None\<rparr>"
    using unparsable_timestamp_raises [OF g2, where cm = Map.empty,
        THEN conjunct2, THEN conjunct2] a
    by (simp add: get_thumbnail_file_path_def path_defs)
  show ?thesis using s b1 b2 b3 b4 b5 by simp
qed

text \<open>
  The claim as the specification words it (an entry without datetime, no error) fails
  there: the snapshot path is valid, its timestamp field is present and does not parse,
  and the history of the work file is the \<^verbatim>\<open>ValueError\<close> of \<^verbatim>\<open>strptime\<close>,
  with no entry returned.
\<close>

theorem unparsable_timestamp_counterexample:
  "validate (snapshot_template demo_app) ''/s/a.v2.yesterday.ma''
   \<and> get_fields (snapshot_template demo_app) ''/s/a.v2.yesterday.ma''
       = Inr (map_of [(''name'', FStr ''a''), (''version'', FInt 2),
                      (''timestamp'', FStr ''yesterday'')])
   \<and> strptime demo_app ''yesterday'' = Inl (ValueError ''time data does not match format'')
   \<and> paths_from_template demo_app (files demo_world_bad_stamp)
        (map_of [(''name'', FStr ''a''), (''version'', FInt 1)])
        [''version'', ''timestamp'', ''increment'']
       = [''/s/a.v1.2024-01-01-12-00-00.ma'', ''/s/a.v2.yesterday.ma'']
   \<and> find_snapshot_history demo_app ''/w/a.v1.ma'' demo_world_bad_stamp
       = (Inl (ValueError ''time data does not match format''), demo_world_bad_stamp)"
  by (simp add: engine_defs demo_defs path_defs)

section \<open>Writing a comment twice\<close>

text \<open>
  C8. For every snapshot path, comment and world: after \<open>add_snapshot_comment\<close> has run
  once, running it again with the same path and comment leaves every file as the first
  run left it. The YAML library is assumed to read back the dictionary that the first run
  writes (the one read by the first run, with the entry of the snapshot set); nothing is
  assumed when the first run writes nothing.
\<close>

theorem comment_write_twice_same_store:
  assumes roundtrip:
    "\<And>cfp m. get_comments_file_path E p = Inr cfp \<Longrightarrow>
       (case files w cfp of None \<Rightarrow> Inr (YDict Map.empty) | Some content \<Rightarrow> yaml_load E content)
         = Inr (YDict m) \<Longrightarrow>
       yaml_load E (yaml_dump E (m(basename p \<mapsto> c))) = Inr (YDict (m(basename p \<mapsto> c)))"
  shows "files (snd (add_snapshot_comment E p c (snd (add_snapshot_comment E p c w))))
           = files (snd (add_snapshot_comment E p c w))"
proof (cases "validate (snapshot_template E) p")
  case False
  then show ?thesis by (simp add: add_snapshot_comment_def log_warning_def)
next
  case True
  show ?thesis
  proof (cases "get_comments_file_path E p")
    case (Inl e)
    then show ?thesis using True by (simp add: add_snapshot_comment_def)
  next
    case cf: (Inr cfp)
    show ?thesis
    proof (cases "files w cfp")
      case None
      have "yaml_load E (yaml_dump E (Map.empty(basename p \<mapsto> c)))
              = Inr (YDict (Map.empty(basename p \<mapsto> c)))"
        using roundtrip [OF cf, of Map.empty] None by simp
      then show ?thesis using True cf None
        by (simp add: add_snapshot_comment_def log_debug_def)
    next
      case (Some content)
      show ?thesis
      proof (cases "yaml_load E content")
        case (Inl e)
        then show ?thesis using True cf Some
          by (simp add: add_snapshot_comment_def log_debug_def)
      next
        case (Inr doc)
        show ?thesis
        proof (cases doc)
          case YNotDict
          then show ?thesis using True cf Some Inr
            by (simp add: add_snapshot_comment_def log_debug_def)
        next
          case (YDict m)
          have "yaml_load E (yaml_dump E (m(basename p \<mapsto> c)))
                  = Inr (YDict (m(basename p \<mapsto> c)))"
            using roundtrip [OF cf, of m] Some Inr YDict by simp
          then show ?thesis using True cf Some Inr YDict
            by (simp add: add_snapshot_comment_def log_debug_def)
        qed
      qed
    qed
  qed
qed

text \<open>
  On the example disk with one snapshot and no comments store: the first write creates
  the store with the comment, the second leaves it as it is.
\<close>

theorem comment_write_twice_same_store_witness:
  "files (snd (add_snapshot_comment demo_app ''/s/a.v1.2024-01-01-12-00-00.ma'' ''hello''
                 demo_world_snap)) ''/s/a.v0.tank_comments.yml'' = Some ''1:hello''
   \<and> files (snd (add_snapshot_comment demo_app ''/s/a.v1.2024-01-01-12-00-00.ma'' ''hello''
             (snd (add_snapshot_comment demo_app ''/s/a.v1.2024-01-01-12-00-00.ma'' ''hello''
                     demo_world_snap))))
       = files (snd (add_snapshot_comment demo_app ''/s/a.v1.2024-01-01-12-00-00.ma'' ''hello''
                       demo_world_snap))"
proof -
  let ?sp = "''/s/a.v1.2024-01-01-12-00-00.ma''"
  have p: "get_comments_file_path demo_app ?sp = Inr ''/s/a.v0.tank_comments.yml''"
    by (simp add: get_comments_file_path_def demo_defs path_defs)
  have b: "basename ?sp = ''a.v1.2024-01-01-12-00-00.ma''"
    by (simp add: path_defs)
  have rt: "yaml_load demo_app (yaml_dump demo_app (m(basename ?sp \<mapsto> ''hello'')))
              = Inr (YDict (m(basename ?sp \<mapsto> ''hello'')))"
    if "get_comments_file_path demo_app ?sp = Inr cfp"
      and "(case files demo_world_snap cfp of None \<Rightarrow> Inr (YDict Map.empty)
            | Some content \<Rightarrow> yaml_load demo_app content) = Inr (YDict m)"
    for cfp m
  proof -
    have "cfp = ''/s/a.v0.tank_comments.yml''" using that(1) p by simp
    then have "m = Map.empty" using that(2) by (simp add: demo_defs)
    then show ?thesis unfolding b by (simp add: demo_defs)
  qed
  have first: "files (snd (add_snapshot_comment demo_app ?sp ''hello'' demo_world_snap))
                 ''/s/a.v0.tank_comments.yml'' = Some ''1:hello''"
    by (simp add: add_snapshot_comment_def get_comments_file_path_def log_debug_def
        demo_defs path_defs)
  have second: "files (snd (add_snapshot_comment demo_app ?sp ''hello''
                   (snd (add_snapshot_comment demo_app ?sp ''hello'' demo_world_snap))))
                = files (snd (add_snapshot_comment demo_app ?sp ''hello'' demo_world_snap))"
  proof (rule comment_write_twice_same_store)
    fix cfp m
    assume "get_comments_file_path demo_app ?sp = Inr cfp"
      and "(case files demo_world_snap cfp of None \<Rightarrow> Inr (YDict Map.empty)
            | Some content \<Rightarrow> yaml_load demo_app content) = Inr (YDict m)"
    then show "yaml_load demo_app (yaml_dump demo_app (m(basename ?sp \<mapsto> ''hello'')))
                 = Inr (YDict (m(basename ?sp \<mapsto> ''hello'')))"
      by (rule rt)
  qed
  show ?thesis using first second by blast
qed

section \<open>The comments file of a snapshot\<close>

text \<open>
  The key of the store. For every snapshot path, the key of its comments store is
  derived as the specification says (the fields of the path, the \<open>version\<close> field
  forced to 0, the work path of these fields, its base name without the extension), and
  the store file is named after that key in the directory of the snapshot path. For two
  snapshot paths whose fields differ at most in \<open>version\<close>, \<open>timestamp\<close> and
  \<open>increment\<close>, and a work template that ignores the \<open>timestamp\<close> and \<open>increment\<close>
  fields, the keys are equal; the store files are the same file when the two snapshot
  paths lie in the same directory.
\<close>

lemma store_key_shared_in_directory:
  assumes "get_fields (snapshot_template E) p1 = Inr f1"
    and "get_fields (snapshot_template E) p2 = Inr f2"
    and "\<forall>k. k \<noteq> ''version'' \<and> k \<noteq> ''timestamp'' \<and> k \<noteq> ''increment'' \<longrightarrow> f1 k = f2 k"
    and "\<forall>f g. (\<forall>k. k \<noteq> ''timestamp'' \<and> k \<noteq> ''increment'' \<longrightarrow> f k = g k)
            \<longrightarrow> apply_fields (work_template E) f = apply_fields (work_template E) g"
  shows "get_comments_file_path E p1 =
           (case store_key_spec E p1 of
              Inl e \<Rightarrow> Inl e
            | Inr key \<Rightarrow> Inr (dirname p1 @ ''/'' @ key @ ''.tank_comments.yml''))
         \<and> store_key_spec E p1 = store_key_spec E p2
         \<and> (dirname p1 = dirname p2
              \<longrightarrow> get_comments_file_path E p1 = get_comments_file_path E p2)"
proof -
  have path: "get_comments_file_path E p =
                (case store_key_spec E p of
                   Inl e \<Rightarrow> Inl e
                 | Inr key \<Rightarrow> Inr (dirname p @ ''/'' @ key @ ''.tank_comments.yml''))" for p
    by (simp add: get_comments_file_path_def store_key_spec_def split: sum.splits)
  have "\<forall>k. k \<noteq> ''timestamp'' \<and> k \<noteq> ''increment''
          \<longrightarrow> (f1(''version'' \<mapsto> FInt 0)) k = (f2(''version'' \<mapsto> FInt 0)) k"
    using assms(3) by simp
  then have "apply_fields (work_template E) (f1(''version'' \<mapsto> FInt 0))
               = apply_fields (work_template E) (f2(''version'' \<mapsto> FInt 0))"
    using assms(4) by blast
  then have key: "store_key_spec E p1 = store_key_spec E p2"
    using assms(1,2) by (simp add: store_key_spec_def)
  have "get_comments_file_path E p1 = get_comments_file_path E p2" if "dirname p1 = dirname p2"
    using that by (simp only: path [of p1] path [of p2] key)
  then show ?thesis using path [of p1] key by blast
qed

text \<open>
  In the example, the snapshots of versions 1 and 2 of \<open>a\<close> lie in \<^verbatim>\<open>/s\<close> and share
  the store \<^verbatim>\<open>/s/a.v0.tank_comments.yml\<close>.
\<close>

lemma store_key_shared_in_directory_example:
  "store_key_spec demo_app ''/s/a.v1.2024-01-01-12-00-00.ma'' = Inr ''a.v0''
   \<and> store_key_spec demo_app ''/s/a.v2.yesterday.ma'' = Inr ''a.v0''
   \<and> dirname ''/s/a.v1.2024-01-01-12-00-00.ma'' = dirname ''/s/a.v2.yesterday.ma''
   \<and> get_comments_file_path demo_app ''/s/a.v1.2024-01-01-12-00-00.ma''
       = Inr ''/s/a.v0.tank_comments.yml''
   \<and> get_comments_file_path demo_app ''/s/a.v2.yesterday.ma''
       = Inr ''/s/a.v0.tank_comments.yml''"
proof -
  let ?p1 = "''/s/a.v1.2024-01-01-12-00-00.ma''"
  let ?p2 = "''/s/a.v2.yesterday.ma''"
  let ?f1 = "map_of [(''name'', FStr ''a''), (''version'', FInt 1),
                     (''timestamp'', FStr ''2024-01-01-12-00-00'')]"
  let ?f2 = "map_of [(''name'', FStr ''a''), (''version'', FInt 2),
                     (''timestamp'', FStr ''yesterday'')]"
  have g1: "get_fields (snapshot_template demo_app) ?p1 = Inr ?f1"
    and g2: "get_fields (snapshot_template demo_app) ?p2 = Inr ?f2"
    by (simp_all add: demo_defs)
  have same: "\<forall>k. k \<noteq> ''version'' \<and> k \<noteq> ''timestamp'' \<and> k \<noteq> ''increment''
                \<longrightarrow> ?f1 k = ?f2 k"
    by simp
  have ign: "\<forall>f g. (\<forall>k. k \<noteq> ''timestamp'' \<and> k \<noteq> ''increment'' \<longrightarrow> f k = g k)
               \<longrightarrow> apply_fields (work_template demo_app) f
                   = apply_fields (work_template demo_app) g"
  proof (intro allI impI)
    fix f g :: fields
    assume a: "\<forall>k. k \<noteq> ''timestamp'' \<and> k \<noteq> ''increment'' \<longrightarrow> f k = g k"
    have "f ''name'' = g ''name''" and "f ''version'' = g ''version''"
      using a by simp_all
    then show "apply_fields (work_template demo_app) f = apply_fields (work_template demo_app) g"
      by (simp add: demo_app_def demo_work_template_def table_template_def demo_work_apply_def
          split: option.splits field_value.splits)
  qed
  have k1: "store_key_spec demo_app ?p1 = Inr ''a.v0''"
    by (simp add: store_key_spec_def demo_defs path_defs)
  have d: "dirname ?p1 = dirname ?p2" and d1: "dirname ?p1 = ''/s''"
    by (simp_all add: path_defs)
  note t = store_key_shared_in_directory [OF g1 g2 same ign]
  note t1 = t [THEN conjunct1]
  note t2 = t [THEN conjunct2, THEN conjunct1]
  note t3 = t [THEN conjunct2, THEN conjunct2, rule_format, OF d]
  have k2: "store_key_spec demo_app ?p2 = Inr ''a.v0''"
    using t2 k1 by simp
  have c1: "get_comments_file_path demo_app ?p1 = Inr ''/s/a.v0.tank_comments.yml''"
    unfolding t1 k1 d1 by simp
  have c2: "get_comments_file_path demo_app ?p2 = Inr ''/s/a.v0.tank_comments.yml''"
    using t3 c1 by simp
  show ?thesis using k1 k2 d c1 c2 by blast
qed

text \<open>
  C9. The key is derived as the claim says, and the comment in the source says that the
  version is set to 0 ``so that comments for all versions are saved in the same file''.
  The code puts the store in the directory of the snapshot path, so the claim's
  consequence fails for a snapshot template that keeps each version in a directory of
  its own. On the example disk of that template, with one snapshot of version 1 and one
  of version 2 of the same work file: the two snapshot paths are valid and have the same
  key, and their store files are two different files; after a comment is written for
  each snapshot, each of the two files holds one comment; and the history of the work
  file, which reads the store of the first listed snapshot only, shows the comment of
  version 1 and none for version 2.
\<close>

theorem store_split_by_directory_loses_comments:
  "validate (snapshot_template vdir_app) ''/s/v1/a.2024-01-01-12-00-00.ma''
   \<and> validate (snapshot_template vdir_app) ''/s/v2/a.2024-05-05-10-30-00.ma''
   \<and> get_fields (snapshot_template vdir_app) ''/s/v1/a.2024-01-01-12-00-00.ma''
       = Inr (map_of [(''name'', FStr ''a''), (''version'', FInt 1),
                      (''timestamp'', FStr ''2024-01-01-12-00-00'')])
   \<and> get_fields (snapshot_template vdir_app) ''/s/v2/a.2024-05-05-10-30-00.ma''
       = Inr (map_of [(''name'', FStr ''a''), (''version'', FInt 2),
                      (''timestamp'', FStr ''2024-05-05-10-30-00'')])
   \<and> store_key_spec vdir_app ''/s/v1/a.2024-01-01-12-00-00.ma'' = Inr ''a.v0''
   \<and> store_key_spec vdir_app ''/s/v2/a.2024-05-05-10-30-00.ma'' = Inr ''a.v0''
   \<and> get_comments_file_path vdir_app ''/s/v1/a.2024-01-01-12-00-00.ma''
       = Inr ''/s/v1/a.v0.tank_comments.yml''
   \<and> get_comments_file_path vdir_app ''/s/v2/a.2024-05-05-10-30-00.ma''
       = Inr ''/s/v2/a.v0.tank_comments.yml''
   \<and> files (snd (add_snapshot_comment vdir_app ''/s/v2/a.2024-05-05-10-30-00.ma'' ''second''
               (snd (add_snapshot_comment vdir_app ''/s/v1/a.2024-01-01-12-00-00.ma'' ''first''
                       vdir_world))))
         ''/s/v1/a.v0.tank_comments.yml'' = Some ''1:first''
   \<and> files (snd (add_snapshot_comment vdir_app ''/s/v2/a.2024-05-05-10-30-00.ma'' ''second''
               (snd (add_snapshot_comment vdir_app ''/s/v1/a.2024-01-01-12-00-00.ma'' ''first''
                       vdir_world))))
         ''/s/v2/a.v0.tank_comments.yml'' = Some ''5:second''
   \<and> map_sum id (map (\<lambda>d. (he_file d, he_version d, he_comment d)))
         (fst (find_snapshot_history vdir_app ''/w/a.v1.ma''
            (snd (add_snapshot_comment vdir_app ''/s/v2/a.2024-05-05-10-30-00.ma'' ''second''
               (snd (add_snapshot_comment vdir_app ''/s/v1/a.2024-01-01-12-00-00.ma'' ''first''
                       vdir_world))))))
       = Inr [(''/s/v1/a.2024-01-01-12-00-00.ma'', Some (FInt 1), ''first''),
              (''/s/v2/a.2024-05-05-10-30-00.ma'', Some (FInt 2), [])]"
  by (simp add: store_key_spec_def engine_defs demo_defs path_defs)

end
